theory Spec2Isabelle
  imports Main
begin

section \<open>Python strings\<close>

text \<open>
  A Python \<^verbatim>\<open>str\<close> is a sequence of Unicode code points, and \<^verbatim>\<open>len\<close> and slicing count
  code points. A string is therefore a list of code points, each a natural number;
  \<open>py\<close> turns an ASCII literal into such a list.
\<close>

type_synonym pystr = "nat list"

definition py :: "string \<Rightarrow> pystr" where
  "py s = map of_char s"

text \<open>
  \<^verbatim>\<open>str.isspace\<close>, \<^verbatim>\<open>str.strip()\<close> and the pattern \<^verbatim>\<open>\s\<close> of \<^verbatim>\<open>re\<close> on a \<^verbatim>\<open>str\<close> all use
  the same table of whitespace code points: the ASCII ones (tab to carriage return, the
  separators 28 to 31, the blank) and the Unicode ones.
\<close>

definition isspace :: "nat \<Rightarrow> bool" where
  "isspace c \<longleftrightarrow> c \<in> set [9, 10, 11, 12, 13, 28, 29, 30, 31, 32, 133, 160, 5760,
      8192, 8193, 8194, 8195, 8196, 8197, 8198, 8199, 8200, 8201, 8202,
      8232, 8233, 8239, 8287, 12288]"

definition strip :: "pystr \<Rightarrow> pystr" where
  "strip s = rev (dropWhile isspace (rev (dropWhile isspace s)))"

definition startswith :: "pystr \<Rightarrow> pystr \<Rightarrow> bool" where
  "startswith s p \<longleftrightarrow> take (length p) s = p"

definition endswith :: "pystr \<Rightarrow> pystr \<Rightarrow> bool" where
  "endswith s p \<longleftrightarrow> length p \<le> length s \<and> drop (length s - length p) s = p"

text \<open>\<^verbatim>\<open>sub in s\<close>: \<open>sub\<close> occurs in \<open>s\<close> as a substring.\<close>

fun contains :: "pystr \<Rightarrow> pystr \<Rightarrow> bool" where
  "contains [] sub = (sub = [])"
| "contains (c # cs) sub = (startswith (c # cs) sub \<or> contains cs sub)"

text \<open>\<^verbatim>\<open>s.split(sep)\<close> for a separator of one character: never the empty list.\<close>

fun split_on :: "nat \<Rightarrow> pystr \<Rightarrow> pystr list" where
  "split_on sep [] = [[]]"
| "split_on sep (c # cs) =
     (if c = sep then [] # split_on sep cs
      else (case split_on sep cs of
              [] \<Rightarrow> [[c]]
            | x # xs \<Rightarrow> (c # x) # xs))"

text \<open>\<^verbatim>\<open>sep.join(parts)\<close>.\<close>

fun join :: "pystr \<Rightarrow> pystr list \<Rightarrow> pystr" where
  "join sep [] = []"
| "join sep [x] = x"
| "join sep (x # y # ys) = x @ sep @ join sep (y # ys)"

text \<open>\<^verbatim>\<open>str(n)\<close> of a non-negative integer: its decimal digits.\<close>

function str_nat :: "nat \<Rightarrow> pystr" where
  "str_nat n = (if n < 10 then [48 + n] else str_nat (n div 10) @ [48 + n mod 10])"
  by pat_completeness auto
termination
  by (relation "measure id") auto

declare str_nat.simps [simp del]

definition str_int :: "int \<Rightarrow> pystr" where
  "str_int i = (if i < 0 then 45 # str_nat (nat (- i)) else str_nat (nat i))"

section \<open>The filename sanitizer\<close>

text \<open>
  \<^verbatim>\<open>re.sub(r'[<>:"/\\|?*]', '', name)\<close>: the characters of the class are removed.
  In the order of the pattern: \<^verbatim>\<open>< > : " / \ | ? *\<close>.
\<close>

definition invalid_chars :: "nat list" where
  "invalid_chars = [60, 62, 58, 34, 47, 92, 124, 63, 42]"

definition remove_invalid :: "pystr \<Rightarrow> pystr" where
  "remove_invalid name = filter (\<lambda>c. c \<notin> set invalid_chars) name"

text \<open>
  \<^verbatim>\<open>re.sub(r'\s+', ' ', clean_name)\<close>: every maximal run of whitespace becomes one blank
  (code point 32).
\<close>

function collapse_spaces :: "pystr \<Rightarrow> pystr" where
  "collapse_spaces [] = []"
| "collapse_spaces (c # cs) =
     (if isspace c then 32 # collapse_spaces (dropWhile isspace cs)
      else c # collapse_spaces cs)"
  by pat_completeness auto
termination
  by (relation "measure length") (auto simp: length_dropWhile_le less_Suc_eq_le)

text \<open>\<^verbatim>\<open>clean_name.strip()[:100]\<close>: the strip comes first, the slice second.\<close>

definition clean_filename :: "pystr \<Rightarrow> pystr" where
  "clean_filename name = take 100 (strip (collapse_spaces (remove_invalid name)))"

text \<open>A string has a run of whitespace when two neighbours are both whitespace.\<close>

fun has_space_run :: "pystr \<Rightarrow> bool" where
  "has_space_run [] = False"
| "has_space_run [a] = False"
| "has_space_run (a # b # cs) = ((isspace a \<and> isspace b) \<or> has_space_run (b # cs))"

text \<open>A string is plain when the sanitizer has nothing to remove from it.\<close>

definition plain :: "pystr \<Rightarrow> bool" where
  "plain s \<longleftrightarrow> (\<forall>c \<in> set s. \<not> isspace c \<and> c \<notin> set invalid_chars)"

section \<open>Paths\<close>

text \<open>
  \<^verbatim>\<open>os.path.join(a, b)\<close> of \<^verbatim>\<open>posixpath\<close> (the output root of \<^verbatim>\<open>main\<close> is an Android
  path): an absolute \<open>b\<close> replaces \<open>a\<close>; otherwise \<open>b\<close> is appended, after a slash
  unless \<open>a\<close> is empty or ends with one.
\<close>

definition os_path_join :: "pystr \<Rightarrow> pystr \<Rightarrow> pystr" where
  "os_path_join a b =
     (if startswith b [47] then b
      else if a = [] \<or> endswith a [47] then a @ b
      else a @ [47] @ b)"

text \<open>
  \<^verbatim>\<open>os.path.dirname(p)\<close> of \<^verbatim>\<open>posixpath\<close>: the part up to the last slash, without its
  trailing slashes unless it consists of slashes only.
\<close>

definition rfind_slash :: "pystr \<Rightarrow> nat" where
  "rfind_slash p = length p - length (takeWhile (\<lambda>c. c \<noteq> 47) (rev p))"

definition os_path_dirname :: "pystr \<Rightarrow> pystr" where
  "os_path_dirname p =
     (let head = take (rfind_slash p) p
      in if head \<noteq> [] \<and> head \<noteq> replicate (length head) 47
         then rev (dropWhile (\<lambda>c. c = 47) (rev head))
         else head)"

section \<open>The world of a run\<close>

text \<open>
  A Python exception is a value carrying its message, the text that \<^verbatim>\<open>{e}\<close> prints.
  The messages of the exceptions raised by the library functions modelled below are
  abridged.
\<close>

datatype error = Error pystr

fun message :: "error \<Rightarrow> pystr" where
  "message (Error m) = m"

text \<open>
  The state a run changes: the lines printed, the URLs requested, the pauses taken, the
  directories made and the files written. A path is identified by its string;
  \<^verbatim>\<open>os.makedirs\<close> also makes the ancestors of its path, which are not recorded.
\<close>

record world =
  log :: "pystr list"
  requests :: "pystr list"
  sleeps :: "nat list"
  dirs :: "pystr set"
  files :: "pystr \<rightharpoonup> pystr"

text \<open>The result of \<^verbatim>\<open>urlparse\<close>.\<close>

record ParseResult =
  scheme :: pystr
  netloc :: pystr
  path :: pystr
  params :: pystr
  query :: pystr
  fragment :: pystr

text \<open>
  What the extraction reads from a \<^verbatim>\<open>div.batch-item\<close> node: the attribute
  \<^verbatim>\<open>data-batch-name\<close>, the text of the first \<^verbatim>\<open>h3.batch-title\<close>, the \<^verbatim>\<open>href\<close> of the first
  \<^verbatim>\<open>a.study-btn\<close> and the \<^verbatim>\<open>src\<close> of the first \<^verbatim>\<open>img.batch-image\<close>, each absent when
  the element or the attribute is.
\<close>

record batch_div =
  data_batch_name :: "pystr option"
  batch_title :: "pystr option"
  study_btn_href :: "pystr option"
  batch_image_src :: "pystr option"

text \<open>
  The same for a \<^verbatim>\<open>div.chapter-card\<close> node: the text of the first \<^verbatim>\<open>h3.chapter-title\<close>,
  the attribute \<^verbatim>\<open>onclick\<close>, the \<^verbatim>\<open>href\<close> of the first \<^verbatim>\<open>a\<close>, the texts of the
  \<^verbatim>\<open>div.stat-item\<close> nodes of the first \<^verbatim>\<open>div.stats\<close>, and the \<^verbatim>\<open>src\<close> of the first
  \<^verbatim>\<open>img.chapter-image\<close>.
\<close>

record chapter_div =
  chapter_title :: "pystr option"
  onclick :: "pystr option"
  anchor_href :: "pystr option"
  stat_items :: "pystr list option"
  chapter_image_src :: "pystr option"

text \<open>
  The dictionaries the extraction builds; the last field is the key \<^verbatim>\<open>folder_name\<close>,
  added when an index page is made.
\<close>

record batch_record =
  batch_name :: pystr
  batch_link :: pystr
  batch_image :: pystr
  batch_folder :: "pystr option"

record stats =
  videos_count :: int
  notes_count :: int

record chapter_record =
  chapter_name :: pystr
  chapter_link :: "pystr option"
  chapter_image :: pystr
  chapter_stats :: stats
  chapter_folder :: "pystr option"

text \<open>
  What the program takes from outside, as parameters of the model:
  \<^item> \<open>http_get\<close>: \<^verbatim>\<open>requests.get\<close> followed by \<^verbatim>\<open>raise_for_status\<close> and \<^verbatim>\<open>.text\<close>, in the
    world the request is made in: the text of the page, or the exception;
  \<^item> \<open>makedirs_error\<close>, \<open>open_error\<close>: the exception \<^verbatim>\<open>os.makedirs\<close>, respectively
    \<^verbatim>\<open>open(p, 'w')\<close> with the write, raises on a path in a world, if any;
  \<^item> \<open>find_batch_items\<close>, \<open>find_chapter_cards\<close>: the HTML parser with \<^verbatim>\<open>find_all\<close>;
  \<^item> \<open>urljoin\<close>, \<open>urlparse\<close>, \<open>geturl\<close>: the functions of \<^verbatim>\<open>urllib.parse\<close>;
  \<^item> \<open>first_number\<close>: \<^verbatim>\<open>re.search(r'\d+', text)\<close> with \<^verbatim>\<open>int\<close> of the match;
  \<^item> \<open>render_main_index\<close>, \<open>render_batch_index\<close>: the two page templates.
\<close>

record env =
  http_get :: "world \<Rightarrow> pystr \<Rightarrow> error + pystr"
  makedirs_error :: "world \<Rightarrow> pystr \<Rightarrow> error option"
  open_error :: "world \<Rightarrow> pystr \<Rightarrow> error option"
  find_batch_items :: "pystr \<Rightarrow> batch_div list"
  find_chapter_cards :: "pystr \<Rightarrow> chapter_div list"
  urljoin :: "pystr \<Rightarrow> pystr \<Rightarrow> error + pystr"
  urlparse :: "pystr \<Rightarrow> error + ParseResult"
  geturl :: "ParseResult \<Rightarrow> pystr"
  first_number :: "pystr \<Rightarrow> int option"
  render_main_index :: "batch_record list \<Rightarrow> pystr"
  render_batch_index :: "batch_record \<Rightarrow> chapter_record list \<Rightarrow> pystr"

text \<open>
  A statement that may raise runs in a world and gives the new world with either the
  exception or its value.
\<close>

type_synonym 'a action = "world \<Rightarrow> (error + 'a) \<times> world"

definition ret :: "'a \<Rightarrow> 'a action" where
  "ret x = (\<lambda>w. (Inr x, w))"

definition raise :: "error \<Rightarrow> 'a action" where
  "raise e = (\<lambda>w. (Inl e, w))"

definition bind :: "'a action \<Rightarrow> ('a \<Rightarrow> 'b action) \<Rightarrow> 'b action" where
  "bind m f = (\<lambda>w. case m w of (Inl e, w') \<Rightarrow> (Inl e, w') | (Inr x, w') \<Rightarrow> f x w')"

text \<open>\<^verbatim>\<open>try: m  except Exception as e: h(e)\<close>.\<close>

definition try_except :: "'a action \<Rightarrow> (error \<Rightarrow> 'a action) \<Rightarrow> 'a action" where
  "try_except m h = (\<lambda>w. case m w of (Inl e, w') \<Rightarrow> h e w' | (Inr x, w') \<Rightarrow> (Inr x, w'))"

text \<open>A value computed by a library function that may raise.\<close>

definition lift :: "error + 'a \<Rightarrow> 'a action" where
  "lift r = (\<lambda>w. (r, w))"

definition print :: "pystr \<Rightarrow> unit action" where
  "print line = (\<lambda>w. (Inr (), w\<lparr>log := log w @ [line]\<rparr>))"

definition time_sleep :: "nat \<Rightarrow> unit action" where
  "time_sleep n = (\<lambda>w. (Inr (), w\<lparr>sleeps := sleeps w @ [n]\<rparr>))"

text \<open>
  \<^verbatim>\<open>os.makedirs(p, exist_ok=True)\<close>; on the empty path it raises whatever the
  environment.
\<close>

definition os_makedirs :: "env \<Rightarrow> pystr \<Rightarrow> unit action" where
  "os_makedirs E p = (\<lambda>w.
     if p = [] then (Inl (Error (py ''[Errno 2] No such file or directory'')), w)
     else (case makedirs_error E w p of
             Some e \<Rightarrow> (Inl e, w)
           | None \<Rightarrow> (Inr (), w\<lparr>dirs := insert p (dirs w)\<rparr>)))"

text \<open>\<^verbatim>\<open>with open(p, 'w', encoding='utf-8') as f: f.write(content)\<close>.\<close>

definition write_file :: "env \<Rightarrow> pystr \<Rightarrow> pystr \<Rightarrow> unit action" where
  "write_file E p content = (\<lambda>w.
     case open_error E w p of
       Some e \<Rightarrow> (Inl e, w)
     | None \<Rightarrow> (Inr (), w\<lparr>files := (files w)(p \<mapsto> content)\<rparr>))"

section \<open>The fetcher\<close>

text \<open>
  \<^verbatim>\<open>get_page_content(url, max_retries)\<close>: the loop over \<^verbatim>\<open>range(max_retries)\<close>, from the
  attempt \<open>attempt\<close> on. The value is \<open>Some (Some text, True)\<close> for \<^verbatim>\<open>(response.text, True)\<close>,
  \<open>Some (None, False)\<close> for \<^verbatim>\<open>(None, False)\<close>, and \<open>None\<close> for the \<^verbatim>\<open>None\<close> Python returns
  when the loop ends without a \<^verbatim>\<open>return\<close>. It raises nothing: \<^verbatim>\<open>except Exception\<close> takes
  every exception of the request.
\<close>

text \<open>The line \<^verbatim>\<open>f"Error fetching {url} (attempt {attempt+1}): {e}"\<close>.\<close>

definition fetch_error_line :: "pystr \<Rightarrow> int \<Rightarrow> error \<Rightarrow> pystr" where
  "fetch_error_line url attempt e =
     py ''Error fetching '' @ url @ py '' (attempt '' @ str_int (attempt + 1) @ py ''): '' @
     message e"

function get_page_content_from ::
  "env \<Rightarrow> pystr \<Rightarrow> int \<Rightarrow> int \<Rightarrow> world \<Rightarrow> (pystr option \<times> bool) option \<times> world" where
  "get_page_content_from E url max_retries attempt w =
     (if attempt < max_retries then
        (case http_get E w url of
           Inr text \<Rightarrow> (Some (Some text, True), w\<lparr>requests := requests w @ [url]\<rparr>)
         | Inl e \<Rightarrow>
             (let w1 = w\<lparr>requests := requests w @ [url]\<rparr>;
                  w2 = w1\<lparr>log := log w1 @ [fetch_error_line url attempt e]\<rparr>
              in if attempt < max_retries - 1
                 then get_page_content_from E url max_retries (attempt + 1)
                        (w2\<lparr>sleeps := sleeps w2 @ [2]\<rparr>)
                 else (Some (None, False), w2)))
      else (None, w))"
  by pat_completeness auto
termination
  by (relation "measure (\<lambda>(E, url, max_retries, attempt, w). nat (max_retries - attempt))") auto

declare get_page_content_from.simps [simp del]

text \<open>The lines printed for the exceptions \<open>es\<close> of successive attempts, from \<open>attempt\<close> on.\<close>

fun fetch_error_lines :: "pystr \<Rightarrow> int \<Rightarrow> error list \<Rightarrow> pystr list" where
  "fetch_error_lines url attempt [] = []"
| "fetch_error_lines url attempt (e # es) =
     fetch_error_line url attempt e # fetch_error_lines url (attempt + 1) es"

definition get_page_content ::
  "env \<Rightarrow> pystr \<Rightarrow> int \<Rightarrow> world \<Rightarrow> (pystr option \<times> bool) option \<times> world" where
  "get_page_content E url max_retries w = get_page_content_from E url max_retries 0 w"

text \<open>
  \<^verbatim>\<open>content, success = get_page_content(url)\<close> with the default \<^verbatim>\<open>max_retries=3\<close>: unpacking
  \<^verbatim>\<open>None\<close> raises.
\<close>

definition fetch :: "env \<Rightarrow> pystr \<Rightarrow> (pystr option \<times> bool) action" where
  "fetch E url = (\<lambda>w.
     case get_page_content E url 3 w of
       (Some r, w') \<Rightarrow> (Inr r, w')
     | (None, w') \<Rightarrow> (Inl (Error (py ''cannot unpack non-iterable NoneType object'')), w'))"

text \<open>
  \<^verbatim>\<open>save_html(content, filepath)\<close>: whether the file was written; an exception of the
  directory creation or of the write is printed.
\<close>

definition save_html :: "env \<Rightarrow> pystr \<Rightarrow> pystr \<Rightarrow> bool action" where
  "save_html E content filepath =
     try_except
       (bind (os_makedirs E (os_path_dirname filepath)) (\<lambda>_.
        bind (write_file E filepath content) (\<lambda>_.
        ret True)))
       (\<lambda>e.
        bind (print (py ''Error saving '' @ filepath @ py '': '' @ message e)) (\<lambda>_.
        ret False))"

section \<open>Query strings\<close>

text \<open>
  The functions of \<^verbatim>\<open>urllib.parse\<close> the view URLs are built with, as CPython 3.10 and
  later define them (\<^verbatim>\<open>&\<close> is the only separator of fields).
\<close>

subsection \<open>UTF-8\<close>

text \<open>
  \<^verbatim>\<open>s.encode('utf-8', 'strict')\<close>: one to four bytes for each code point; a surrogate
  (D800 to DFFF) raises \<^verbatim>\<open>UnicodeEncodeError\<close>.
\<close>

definition encode_char :: "nat \<Rightarrow> error + nat list" where
  "encode_char c =
     (if c < 128 then Inr [c]
      else if c < 2048 then Inr [192 + c div 64, 128 + c mod 64]
      else if c < 65536 then
        (if 55296 \<le> c \<and> c \<le> 57343
         then Inl (Error (py ''utf-8 codec cannot encode character: surrogates not allowed''))
         else Inr [224 + c div 4096, 128 + (c div 64) mod 64, 128 + c mod 64])
      else Inr [240 + c div 262144, 128 + (c div 4096) mod 64, 128 + (c div 64) mod 64,
                128 + c mod 64])"

fun utf8_encode :: "pystr \<Rightarrow> error + nat list" where
  "utf8_encode [] = Inr []"
| "utf8_encode (c # cs) =
     (case encode_char c of
        Inl e \<Rightarrow> Inl e
      | Inr bs \<Rightarrow> (case utf8_encode cs of Inl e \<Rightarrow> Inl e | Inr rest \<Rightarrow> Inr (bs @ rest)))"

definition is_continuation :: "nat \<Rightarrow> bool" where
  "is_continuation b \<longleftrightarrow> 128 \<le> b \<and> b < 192"

text \<open>
  \<^verbatim>\<open>bs.decode('utf-8', 'replace')\<close>: an invalid start byte, and a start byte with the
  valid continuation bytes after it that do not complete a character, become one U+FFFD
  (code point 65533); decoding goes on at the byte that did not fit.
\<close>

fun utf8_decode :: "nat list \<Rightarrow> pystr" where
  "utf8_decode [] = []"
| "utf8_decode (b # bs) =
     (if b < 128 then b # utf8_decode bs
      else if b < 194 then 65533 # utf8_decode bs
      else if b < 224 then
        (case bs of
           [] \<Rightarrow> [65533]
         | b2 # r2 \<Rightarrow>
             if is_continuation b2
             then ((b - 192) * 64 + (b2 - 128)) # utf8_decode r2
             else 65533 # utf8_decode bs)
      else if b < 240 then
        (case bs of
           [] \<Rightarrow> [65533]
         | b2 # r2 \<Rightarrow>
             if \<not> is_continuation b2 \<or> (if b2 < 160 then b = 224 else b = 237)
             then 65533 # utf8_decode bs
             else (case r2 of
                     [] \<Rightarrow> [65533]
                   | b3 # r3 \<Rightarrow>
                       if is_continuation b3
                       then ((b - 224) * 4096 + (b2 - 128) * 64 + (b3 - 128)) # utf8_decode r3
                       else 65533 # utf8_decode r2))
      else if b < 245 then
        (case bs of
           [] \<Rightarrow> [65533]
         | b2 # r2 \<Rightarrow>
             if \<not> is_continuation b2 \<or> (if b2 < 144 then b = 240 else b = 244)
             then 65533 # utf8_decode bs
             else (case r2 of
                     [] \<Rightarrow> [65533]
                   | b3 # r3 \<Rightarrow>
                       if \<not> is_continuation b3 then 65533 # utf8_decode r2
                       else (case r3 of
                               [] \<Rightarrow> [65533]
                             | b4 # r4 \<Rightarrow>
                                 if is_continuation b4
                                 then ((b - 240) * 262144 + (b2 - 128) * 4096 +
                                       (b3 - 128) * 64 + (b4 - 128)) # utf8_decode r4
                                 else 65533 # utf8_decode r3)))
      else 65533 # utf8_decode bs)"

subsection \<open>Percent-encoding\<close>

definition hex_value :: "nat \<Rightarrow> nat option" where
  "hex_value c =
     (if 48 \<le> c \<and> c \<le> 57 then Some (c - 48)
      else if 65 \<le> c \<and> c \<le> 70 then Some (c - 55)
      else if 97 \<le> c \<and> c \<le> 102 then Some (c - 87)
      else None)"

text \<open>The table \<^verbatim>\<open>_hextobyte\<close>: its keys are the strings of two hexadecimal digits.\<close>

definition hextobyte :: "pystr \<Rightarrow> nat option" where
  "hextobyte s =
     (case s of
        [h, l] \<Rightarrow> (case (hex_value h, hex_value l) of
                     (Some x, Some y) \<Rightarrow> Some (16 * x + y)
                   | _ \<Rightarrow> None)
      | _ \<Rightarrow> None)"

text \<open>
  \<^verbatim>\<open>unquote_to_bytes(string)\<close> on a string of ASCII characters, which are their own
  bytes: the string is split at \<^verbatim>\<open>%\<close> (code point 37), and each piece after the first
  gives the byte of its two leading hexadecimal digits, or stays as it is.
\<close>

definition unquote_to_bytes :: "pystr \<Rightarrow> nat list" where
  "unquote_to_bytes string =
     (case split_on 37 string of
        [] \<Rightarrow> []
      | first # items \<Rightarrow>
          first @ concat (map (\<lambda>item. case hextobyte (take 2 item) of
                                         Some b \<Rightarrow> b # drop 2 item
                                       | None \<Rightarrow> 37 # item) items))"

text \<open>
  \<^verbatim>\<open>unquote(string)\<close> with the defaults \<^verbatim>\<open>encoding='utf-8', errors='replace'\<close>: a string
  without \<^verbatim>\<open>%\<close> is returned as it is; otherwise each maximal run of ASCII characters is
  unquoted to bytes and decoded, and the characters between the runs are kept.
\<close>

function unquote_runs :: "pystr \<Rightarrow> pystr" where
  "unquote_runs [] = []"
| "unquote_runs (c # cs) =
     (if c < 128
      then utf8_decode (unquote_to_bytes (takeWhile (\<lambda>x. x < 128) (c # cs))) @
           unquote_runs (dropWhile (\<lambda>x. x < 128) (c # cs))
      else c # unquote_runs cs)"
  by pat_completeness auto
termination
  by (relation "measure length") (auto simp: length_dropWhile_le less_Suc_eq_le)

definition unquote :: "pystr \<Rightarrow> pystr" where
  "unquote string = (if 37 \<notin> set string then string else unquote_runs string)"

text \<open>
  The bytes \<^verbatim>\<open>quote\<close> never escapes (\<^verbatim>\<open>_ALWAYS_SAFE\<close>): the ASCII letters and digits and
  \<^verbatim>\<open>_ . - ~\<close>.
\<close>

definition always_safe :: "nat \<Rightarrow> bool" where
  "always_safe b \<longleftrightarrow> (65 \<le> b \<and> b \<le> 90) \<or> (97 \<le> b \<and> b \<le> 122) \<or> (48 \<le> b \<and> b \<le> 57) \<or>
     b = 95 \<or> b = 46 \<or> b = 45 \<or> b = 126"

definition hex_digit :: "nat \<Rightarrow> nat" where
  "hex_digit d = (if d < 10 then 48 + d else 55 + d)"

text \<open>\<^verbatim>\<open>quote_from_bytes(bs, safe)\<close>: an unsafe byte becomes \<^verbatim>\<open>%XX\<close>, upper case.\<close>

definition quote_from_bytes :: "nat list \<Rightarrow> nat list \<Rightarrow> pystr" where
  "quote_from_bytes bs safe =
     concat (map (\<lambda>b. if always_safe b \<or> b \<in> set safe then [b]
                       else [37, hex_digit (b div 16), hex_digit (b mod 16)]) bs)"

definition quote :: "pystr \<Rightarrow> nat list \<Rightarrow> error + pystr" where
  "quote string safe =
     (if string = [] then Inr string
      else (case utf8_encode string of
              Inl e \<Rightarrow> Inl e
            | Inr bs \<Rightarrow> Inr (quote_from_bytes bs safe)))"

text \<open>
  \<^verbatim>\<open>quote_plus(string)\<close>: a string with a blank is quoted with the blank safe, and its
  blanks are then replaced by \<^verbatim>\<open>+\<close> (code point 43).
\<close>

definition quote_plus :: "pystr \<Rightarrow> error + pystr" where
  "quote_plus string =
     (if 32 \<notin> set string then quote string []
      else (case quote string [32] of
              Inl e \<Rightarrow> Inl e
            | Inr s \<Rightarrow> Inr (map (\<lambda>c. if c = 32 then 43 else c) s)))"

subsection \<open>Parsing and building a query\<close>

text \<open>
  A \<^verbatim>\<open>dict\<close> keeps its keys in the order of their insertion: an association list with
  no key twice.
\<close>

type_synonym ('k, 'v) dict = "('k \<times> 'v) list"

fun dict_get :: "('k, 'v) dict \<Rightarrow> 'k \<Rightarrow> 'v option" where
  "dict_get [] k = None"
| "dict_get ((k', v') # d) k = (if k' = k then Some v' else dict_get d k)"

fun dict_set :: "('k, 'v) dict \<Rightarrow> 'k \<Rightarrow> 'v \<Rightarrow> ('k, 'v) dict" where
  "dict_set [] k v = [(k, v)]"
| "dict_set ((k', v') # d) k v = (if k' = k then (k, v) # d else (k', v') # dict_set d k v)"

text \<open>\<^verbatim>\<open>name, has_eq, value = name_value.partition('=')\<close>, without \<open>has_eq\<close>.\<close>

definition partition_eq :: "pystr \<Rightarrow> pystr \<times> pystr" where
  "partition_eq name_value =
     (takeWhile (\<lambda>c. c \<noteq> 61) name_value, drop 1 (dropWhile (\<lambda>c. c \<noteq> 61) name_value))"

definition unquote_plus :: "pystr \<Rightarrow> pystr" where
  "unquote_plus s = unquote (map (\<lambda>c. if c = 43 then 32 else c) s)"

text \<open>
  \<^verbatim>\<open>parse_qsl(qs, keep_blank_values)\<close>: the fields between \<^verbatim>\<open>&\<close> (code point 38); an empty
  field is skipped, and so is, unless \<open>keep_blank_values\<close>, a field whose value is empty
  or that has no \<^verbatim>\<open>=\<close>.
\<close>

definition parse_qsl :: "bool \<Rightarrow> pystr \<Rightarrow> (pystr \<times> pystr) list" where
  "parse_qsl keep_blank_values qs =
     concat (map (\<lambda>name_value.
        if name_value = [] then []
        else (case partition_eq name_value of
                (name, val) \<Rightarrow>
                  if val \<noteq> [] \<or> keep_blank_values
                  then [(unquote_plus name, unquote_plus val)]
                  else [])) (split_on 38 qs))"

text \<open>
  \<^verbatim>\<open>parse_qs(qs)\<close>, whose default is \<^verbatim>\<open>keep_blank_values=False\<close>: the values of a name
  are collected in a list, in their order.
\<close>

fun collect :: "(pystr \<times> pystr) list \<Rightarrow> (pystr, pystr list) dict \<Rightarrow> (pystr, pystr list) dict" where
  "collect [] parsed_result = parsed_result"
| "collect ((name, val) # pairs) parsed_result =
     collect pairs
       (case dict_get parsed_result name of
          Some vs \<Rightarrow> dict_set parsed_result name (vs @ [val])
        | None \<Rightarrow> dict_set parsed_result name [val])"

definition parse_qs :: "pystr \<Rightarrow> (pystr, pystr list) dict" where
  "parse_qs qs = collect (parse_qsl False qs) []"

text \<open>
  \<^verbatim>\<open>urlencode(query, doseq=True)\<close> of a dictionary of lists: one field \<^verbatim>\<open>k=v\<close> for each
  value of each key, both quoted, joined by \<^verbatim>\<open>&\<close>.
\<close>

fun encode_values :: "pystr \<Rightarrow> pystr list \<Rightarrow> error + pystr list" where
  "encode_values k [] = Inr []"
| "encode_values k (elt # v) =
     (case quote_plus elt of
        Inl e \<Rightarrow> Inl e
      | Inr elt' \<Rightarrow> (case encode_values k v of
                      Inl e \<Rightarrow> Inl e
                    | Inr l \<Rightarrow> Inr ((k @ [61] @ elt') # l)))"

fun encode_items :: "(pystr, pystr list) dict \<Rightarrow> error + pystr list" where
  "encode_items [] = Inr []"
| "encode_items ((k, v) # items) =
     (case quote_plus k of
        Inl e \<Rightarrow> Inl e
      | Inr k' \<Rightarrow> (case encode_values k' v of
                    Inl e \<Rightarrow> Inl e
                  | Inr l \<Rightarrow> (case encode_items items of
                                Inl e \<Rightarrow> Inl e
                              | Inr l' \<Rightarrow> Inr (l @ l'))))"

definition urlencode :: "(pystr, pystr list) dict \<Rightarrow> error + pystr" where
  "urlencode query_params =
     (case encode_items query_params of
        Inl e \<Rightarrow> Inl e
      | Inr l \<Rightarrow> Inr (join [38] l))"

text \<open>
  The view URL of \<^verbatim>\<open>create_chapter_views\<close>, which has these lines once for each view:
  \<^verbatim>\<open>query_params = parse_qs(parsed_url.query)\<close>, \<^verbatim>\<open>query_params['view'] = [view]\<close>,
  \<^verbatim>\<open>parsed_url._replace(query=urlencode(query_params, doseq=True))\<close>; \<open>view_url\<close> has
  \<^verbatim>\<open>urlparse\<close> before them and \<^verbatim>\<open>geturl\<close> after.
\<close>

definition replace_view :: "ParseResult \<Rightarrow> pystr \<Rightarrow> error + ParseResult" where
  "replace_view parsed_url view =
     (case urlencode (dict_set (parse_qs (query parsed_url)) (py ''view'') [view]) of
        Inl e \<Rightarrow> Inl e
      | Inr q \<Rightarrow> Inr (parsed_url\<lparr>query := q\<rparr>))"

definition view_url :: "env \<Rightarrow> pystr \<Rightarrow> pystr \<Rightarrow> error + pystr" where
  "view_url E link view =
     (case urlparse E link of
        Inl e \<Rightarrow> Inl e
      | Inr parsed_url \<Rightarrow>
          (case replace_view parsed_url view of
             Inl e \<Rightarrow> Inl e
           | Inr replaced \<Rightarrow> Inr (geturl E replaced)))"

section \<open>Extraction\<close>

text \<open>The truth value of a string or of \<^verbatim>\<open>None\<close>: only a non-empty string is true.\<close>

definition truthy :: "pystr option \<Rightarrow> bool" where
  "truthy v = (case v of None \<Rightarrow> False | Some s \<Rightarrow> s \<noteq> [])"

text \<open>
  The image source of an item: \<^verbatim>\<open>img_elem['src']\<close> or the empty string, joined to the URL
  of the page unless it is empty or starts with \<^verbatim>\<open>http\<close> or \<^verbatim>\<open>//\<close>.
\<close>

definition image_source :: "env \<Rightarrow> pystr \<Rightarrow> pystr option \<Rightarrow> error + pystr" where
  "image_source E page_url src =
     (let img_src = (case src of Some s \<Rightarrow> s | None \<Rightarrow> [])
      in if img_src \<noteq> [] \<and> \<not> (startswith img_src (py ''http'') \<or> startswith img_src (py ''//''))
         then urljoin E page_url img_src
         else Inr img_src)"

text \<open>
  The body of the loop of \<^verbatim>\<open>extract_batches\<close> inside its \<^verbatim>\<open>try\<close>: the dictionary to
  append, if any, or the exception. The name is the attribute, or else the stripped text
  of the title, or else the empty string; nothing checks it afterwards.
\<close>

definition extract_batch :: "env \<Rightarrow> pystr \<Rightarrow> batch_div \<Rightarrow> error + batch_record option" where
  "extract_batch E main_url batch_div =
     (let name = (case data_batch_name batch_div of Some n \<Rightarrow> n | None \<Rightarrow> []);
          name = (if name = []
                  then (case batch_title batch_div of
                          Some t \<Rightarrow> strip t
                        | None \<Rightarrow> name)
                  else name)
      in case study_btn_href batch_div of
           None \<Rightarrow> Inr None
         | Some href \<Rightarrow>
             (case urljoin E main_url href of
                Inl e \<Rightarrow> Inl e
              | Inr link \<Rightarrow>
                  (case image_source E main_url (batch_image_src batch_div) of
                     Inl e \<Rightarrow> Inl e
                   | Inr img_src \<Rightarrow>
                       Inr (Some \<lparr>batch_name = name, batch_link = link,
                                  batch_image = img_src, batch_folder = None\<rparr>))))"

fun extract_batch_divs :: "env \<Rightarrow> pystr \<Rightarrow> batch_div list \<Rightarrow> batch_record list \<Rightarrow> batch_record list action" where
  "extract_batch_divs E main_url [] batches = ret batches"
| "extract_batch_divs E main_url (batch_div # batch_divs) batches =
     (case extract_batch E main_url batch_div of
        Inl e \<Rightarrow>
          bind (print (py ''Error processing batch: '' @ message e)) (\<lambda>_.
          extract_batch_divs E main_url batch_divs batches)
      | Inr None \<Rightarrow> extract_batch_divs E main_url batch_divs batches
      | Inr (Some b) \<Rightarrow> extract_batch_divs E main_url batch_divs (batches @ [b]))"

text \<open>The lines the loop prints: one for each item whose extraction raises.\<close>

definition batch_error_lines :: "env \<Rightarrow> pystr \<Rightarrow> batch_div list \<Rightarrow> pystr list" where
  "batch_error_lines E main_url batch_divs =
     concat (map (\<lambda>d. case extract_batch E main_url d of
                          Inl e \<Rightarrow> [py ''Error processing batch: '' @ message e]
                        | Inr _ \<Rightarrow> []) batch_divs)"

definition extract_batches :: "env \<Rightarrow> pystr \<Rightarrow> batch_record list action" where
  "extract_batches E main_url =
     bind (print (py ''Fetching batches from: '' @ main_url)) (\<lambda>_.
     bind (fetch E main_url) (\<lambda>(content, success).
     if \<not> success then ret []
     else extract_batch_divs E main_url
            (find_batch_items E (case content of Some c \<Rightarrow> c | None \<Rightarrow> [])) []))"

text \<open>
  \<^verbatim>\<open>re.search(r"window\.location\.href='([^']+)'", s)\<close>, its group 1: the leftmost place
  where the literal is followed by one or more characters other than the quote (code
  point 39) and then by a quote.
\<close>

definition match_href :: "pystr \<Rightarrow> pystr option" where
  "match_href s =
     (let lit = py ''window.location.href='' @ [39]
      in if startswith s lit
         then (let rest = drop (length lit) s;
                   url = takeWhile (\<lambda>c. c \<noteq> 39) rest
               in if url \<noteq> [] \<and> dropWhile (\<lambda>c. c \<noteq> 39) rest \<noteq> [] then Some url else None)
         else None)"

fun search_href :: "pystr \<Rightarrow> pystr option" where
  "search_href [] = match_href []"
| "search_href (c # cs) =
     (case match_href (c # cs) of Some url \<Rightarrow> Some url | None \<Rightarrow> search_href cs)"

text \<open>The link of a chapter: from the \<^verbatim>\<open>onclick\<close> handler, or else from the first anchor.\<close>

definition extract_chapter_link :: "env \<Rightarrow> pystr \<Rightarrow> chapter_div \<Rightarrow> error + pystr option" where
  "extract_chapter_link E batch_url chapter_div =
     (let onclick_attr = (case onclick chapter_div of Some s \<Rightarrow> s | None \<Rightarrow> []);
          from_onclick =
            (if contains onclick_attr (py ''window.location.href'')
             then (case search_href onclick_attr of
                     Some url \<Rightarrow> (case urljoin E batch_url url of
                                    Inl e \<Rightarrow> Inl e
                                  | Inr l \<Rightarrow> Inr (Some l))
                   | None \<Rightarrow> Inr None)
             else Inr None)
      in case from_onclick of
           Inl e \<Rightarrow> Inl e
         | Inr link \<Rightarrow>
             if \<not> truthy link
             then (case anchor_href chapter_div of
                     Some href \<Rightarrow> (case urljoin E batch_url href of
                                     Inl e \<Rightarrow> Inl e
                                   | Inr l \<Rightarrow> Inr (Some l))
                   | None \<Rightarrow> Inr link)
             else Inr link)"

text \<open>The counters: for each stat item, the first number of its text, or 0.\<close>

fun extract_stats :: "env \<Rightarrow> pystr list \<Rightarrow> stats \<Rightarrow> stats" where
  "extract_stats E [] st = st"
| "extract_stats E (text # items) st =
     (let n = (case first_number E text of Some i \<Rightarrow> i | None \<Rightarrow> 0)
      in if contains text (py ''Videos'') then extract_stats E items (st\<lparr>videos_count := n\<rparr>)
         else if contains text (py ''Notes'') then extract_stats E items (st\<lparr>notes_count := n\<rparr>)
         else extract_stats E items st)"

definition extract_chapter :: "env \<Rightarrow> pystr \<Rightarrow> chapter_div \<Rightarrow> error + chapter_record" where
  "extract_chapter E batch_url chapter_div =
     (let name = (case chapter_title chapter_div of
                    Some t \<Rightarrow> strip t
                  | None \<Rightarrow> py ''Unknown Chapter'')
      in case extract_chapter_link E batch_url chapter_div of
           Inl e \<Rightarrow> Inl e
         | Inr link \<Rightarrow>
             (let st = (case stat_items chapter_div of
                          Some items \<Rightarrow> extract_stats E items \<lparr>videos_count = 0, notes_count = 0\<rparr>
                        | None \<Rightarrow> \<lparr>videos_count = 0, notes_count = 0\<rparr>)
              in case image_source E batch_url (chapter_image_src chapter_div) of
                   Inl e \<Rightarrow> Inl e
                 | Inr img_src \<Rightarrow>
                     Inr \<lparr>chapter_name = name, chapter_link = link, chapter_image = img_src,
                          chapter_stats = st, chapter_folder = None\<rparr>))"

fun extract_chapter_divs ::
  "env \<Rightarrow> pystr \<Rightarrow> chapter_div list \<Rightarrow> chapter_record list \<Rightarrow> chapter_record list action" where
  "extract_chapter_divs E batch_url [] chapters = ret chapters"
| "extract_chapter_divs E batch_url (chapter_div # chapter_divs) chapters =
     (case extract_chapter E batch_url chapter_div of
        Inl e \<Rightarrow>
          bind (print (py ''Error processing chapter: '' @ message e)) (\<lambda>_.
          extract_chapter_divs E batch_url chapter_divs chapters)
      | Inr c \<Rightarrow> extract_chapter_divs E batch_url chapter_divs (chapters @ [c]))"

definition extract_chapters :: "env \<Rightarrow> pystr \<Rightarrow> pystr \<Rightarrow> chapter_record list action" where
  "extract_chapters E batch_url name =
     bind (print (py ''Fetching chapters from: '' @ batch_url)) (\<lambda>_.
     bind (fetch E batch_url) (\<lambda>(content, success).
     if \<not> success then ret []
     else extract_chapter_divs E batch_url
            (find_chapter_cards E (case content of Some c \<Rightarrow> c | None \<Rightarrow> [])) []))"

section \<open>The index pages\<close>

text \<open>
  \<^verbatim>\<open>create_main_index\<close> and \<^verbatim>\<open>create_batch_index\<close> add the key \<^verbatim>\<open>folder_name\<close> to the
  dictionaries they are given; the caller sees the change, so the model returns them.
  The result of \<^verbatim>\<open>save_html\<close> is not looked at.
\<close>

definition create_main_index :: "env \<Rightarrow> batch_record list \<Rightarrow> pystr \<Rightarrow> batch_record list action" where
  "create_main_index E batches base_dir =
     (let batches = map (\<lambda>b. b\<lparr>batch_folder := Some (clean_filename (batch_name b))\<rparr>) batches;
          html_content = render_main_index E batches;
          index_path = os_path_join base_dir (py ''index.html'')
      in bind (save_html E html_content index_path) (\<lambda>_.
         bind (print (py ''Created main index.html at '' @ index_path)) (\<lambda>_.
         ret batches)))"

definition create_batch_index :: "env \<Rightarrow> batch_record \<Rightarrow> chapter_record list \<Rightarrow> pystr \<Rightarrow> chapter_record list action" where
  "create_batch_index E b chapters batch_folder_path =
     (let chapters = map (\<lambda>c. c\<lparr>chapter_folder := Some (clean_filename (chapter_name c))\<rparr>) chapters;
          html_content = render_batch_index E b chapters;
          index_path = os_path_join batch_folder_path (py ''index.html'')
      in bind (save_html E html_content index_path) (\<lambda>_.
         bind (print (py ''Created batch index.html at '' @ index_path)) (\<lambda>_.
         ret chapters)))"

section \<open>The views of a chapter\<close>

text \<open>
  One half of \<^verbatim>\<open>create_chapter_views\<close>: the folder of the view is made; if the chapter
  has a link, the page of the view is fetched and, on success, saved as the index page
  of the folder.
\<close>

definition create_view :: "env \<Rightarrow> chapter_record \<Rightarrow> pystr \<Rightarrow> pystr \<Rightarrow> pystr \<Rightarrow> unit action" where
  "create_view E c chapter_folder_path folder view =
     (let view_folder = os_path_join chapter_folder_path folder
      in bind (os_makedirs E view_folder) (\<lambda>_.
         if truthy (chapter_link c)
         then bind (lift (view_url E (the (chapter_link c)) view)) (\<lambda>url.
              bind (fetch E url) (\<lambda>(content, success).
              if success
              then (let index_path = os_path_join view_folder (py ''index.html'')
                    in bind (save_html E (case content of Some t \<Rightarrow> t | None \<Rightarrow> []) index_path) (\<lambda>_.
                       print (py ''Created '' @ view @ py '' index.html at '' @ index_path)))
              else ret ()))
         else ret ()))"

definition create_chapter_views :: "env \<Rightarrow> chapter_record \<Rightarrow> pystr \<Rightarrow> unit action" where
  "create_chapter_views E c chapter_folder_path =
     bind (create_view E c chapter_folder_path (py ''Lectures'') (py ''lectures'')) (\<lambda>_.
     create_view E c chapter_folder_path (py ''Notes'') (py ''notes''))"

section \<open>The traversal\<close>

text \<open>
  The folder of a chapter: \<^verbatim>\<open>os.path.join(batch_folder_path, clean_filename(chapter['name']))\<close>.
\<close>

definition chapter_folder_path :: "pystr \<Rightarrow> chapter_record \<Rightarrow> pystr" where
  "chapter_folder_path batch_folder_path c =
     (let chapter_folder_name = clean_filename (chapter_name c)
      in os_path_join batch_folder_path chapter_folder_name)"

fun process_chapters :: "env \<Rightarrow> pystr \<Rightarrow> chapter_record list \<Rightarrow> unit action" where
  "process_chapters E batch_folder_path [] = ret ()"
| "process_chapters E batch_folder_path (c # chapters) =
     bind (os_makedirs E (chapter_folder_path batch_folder_path c)) (\<lambda>_.
     bind (print (py ''  Processing chapter: '' @ chapter_name c)) (\<lambda>_.
     bind (print (py ''  Folder: '' @ chapter_folder_path batch_folder_path c)) (\<lambda>_.
     bind (create_chapter_views E c (chapter_folder_path batch_folder_path c)) (\<lambda>_.
     process_chapters E batch_folder_path chapters))))"

text \<open>The body of the loop over the batches, inside its \<^verbatim>\<open>try\<close>.\<close>

definition process_batch :: "env \<Rightarrow> pystr \<Rightarrow> batch_record \<Rightarrow> unit action" where
  "process_batch E base_dir b =
     (let batch_folder_name = clean_filename (batch_name b);
          batch_folder_path = os_path_join base_dir batch_folder_name
      in bind (os_makedirs E batch_folder_path) (\<lambda>_.
         bind (print ([10] @ py ''Processing batch: '' @ batch_name b)) (\<lambda>_.
         bind (print (py ''Folder: '' @ batch_folder_path)) (\<lambda>_.
         bind (fetch E (batch_link b)) (\<lambda>(batch_content, success).
         bind (if success
               then (let batch_html_path = os_path_join batch_folder_path (py ''batch_details.html'')
                     in bind (save_html E (case batch_content of Some t \<Rightarrow> t | None \<Rightarrow> [])
                                batch_html_path) (\<lambda>_.
                        print (py ''Saved batch HTML: '' @ batch_html_path)))
               else ret ()) (\<lambda>_.
         bind (extract_chapters E (batch_link b) (batch_name b)) (\<lambda>chapters.
         bind (create_batch_index E b chapters batch_folder_path) (\<lambda>chapters.
         bind (process_chapters E batch_folder_path chapters) (\<lambda>_.
         time_sleep 1)))))))))"

fun process_batches :: "env \<Rightarrow> pystr \<Rightarrow> batch_record list \<Rightarrow> unit action" where
  "process_batches E base_dir [] = ret ()"
| "process_batches E base_dir (b # batches) =
     bind (try_except (process_batch E base_dir b)
             (\<lambda>e. print (py ''Error processing batch '' @ batch_name b @ py '': '' @ message e)))
       (\<lambda>_. process_batches E base_dir batches)"

definition create_batch_structure :: "env \<Rightarrow> pystr \<Rightarrow> pystr \<Rightarrow> unit action" where
  "create_batch_structure E main_url base_dir =
     bind (extract_batches E main_url) (\<lambda>batches.
     if batches = []
     then print (py ''No batches found!'')
     else bind (print (py ''Found '' @ str_nat (length batches) @ py '' batches'')) (\<lambda>_.
          bind (create_main_index E batches base_dir) (\<lambda>batches.
          process_batches E base_dir batches)))"

section \<open>Example environments\<close>

text \<open>The world before a run, and a network on which every request times out.\<close>

definition world0 :: world where
  "world0 = \<lparr>log = [], requests = [], sleeps = [], dirs = {}, files = Map.empty\<rparr>"



text \<open>
  A small site: \<open>pages\<close> gives the text of each URL that answers, \<open>batch_items\<close> and
  \<open>chapter_cards\<close> the nodes the parser finds in a text. The links of the site are
  absolute, so joining a link to a base gives the link; \<open>split_query\<close> and \<open>unsplit_query\<close>
  stand in for \<^verbatim>\<open>urlparse\<close> and \<^verbatim>\<open>geturl\<close> on URLs without parameters and fragment, and
  keep everything before the question mark (code point 63) in the path. The templates
  render the names only. The file system never fails.
\<close>

definition split_query :: "pystr \<Rightarrow> error + ParseResult" where
  "split_query url =
     Inr \<lparr>scheme = [], netloc = [], path = takeWhile (\<lambda>c. c \<noteq> 63) url, params = [],
          query = drop 1 (dropWhile (\<lambda>c. c \<noteq> 63) url), fragment = []\<rparr>"

definition unsplit_query :: "ParseResult \<Rightarrow> pystr" where
  "unsplit_query p = path p @ (if query p = [] then [] else [63] @ query p)"

definition site ::
  "(pystr \<times> pystr) list \<Rightarrow> (pystr \<times> batch_div list) list \<Rightarrow>
   (pystr \<times> chapter_div list) list \<Rightarrow> env" where
  "site pages batch_items chapter_cards =
     \<lparr>http_get = (\<lambda>w url. case map_of pages url of
                              Some t \<Rightarrow> Inr t
                            | None \<Rightarrow> Inl (Error (py ''404 Client Error''))),
      makedirs_error = (\<lambda>w p. None),
      open_error = (\<lambda>w p. None),
      find_batch_items = (\<lambda>content. case map_of batch_items content of
                                        Some ds \<Rightarrow> ds
                                      | None \<Rightarrow> []),
      find_chapter_cards = (\<lambda>content. case map_of chapter_cards content of
                                          Some ds \<Rightarrow> ds
                                        | None \<Rightarrow> []),
      urljoin = (\<lambda>base url. Inr url),
      urlparse = split_query,
      geturl = unsplit_query,
      first_number = (\<lambda>t. None),
      render_main_index = (\<lambda>batches. py ''All Batches: '' @ concat (map batch_name batches)),
      render_batch_index = (\<lambda>b chapters. py ''Batch: '' @ batch_name b)\<rparr>"




text \<open>
  A chapter without a link, and a chapter with one on a site where only the notes
  view answers.
\<close>

definition no_link_chapter :: chapter_record where
  "no_link_chapter =
     \<lparr>chapter_name = py ''Ch 1'', chapter_link = None, chapter_image = [],
      chapter_stats = \<lparr>videos_count = 0, notes_count = 0\<rparr>, chapter_folder = None\<rparr>"

definition notes_only_site :: env where
  "notes_only_site = site [(py ''http://kd/c1?view=notes'', py ''notes page'')] [] []"

definition linked_chapter :: chapter_record where
  "linked_chapter =
     \<lparr>chapter_name = py ''Ch 1'', chapter_link = Some (py ''http://kd/c1''), chapter_image = [],
      chapter_stats = \<lparr>videos_count = 0, notes_count = 0\<rparr>, chapter_folder = None\<rparr>"

text \<open>A site whose root page has no batch item.\<close>

definition empty_site :: env where
  "empty_site = site [(py ''http://kd/'', py ''root page'')] [] []"

text \<open>
  Two chapters whose names differ by a colon, with different links, on a site where all
  four of their views answer.
\<close>

definition chapter_a :: chapter_record where
  "chapter_a =
     \<lparr>chapter_name = py ''Ch 1: Motion'', chapter_link = Some (py ''http://kd/a''),
      chapter_image = [], chapter_stats = \<lparr>videos_count = 0, notes_count = 0\<rparr>,
      chapter_folder = None\<rparr>"

definition chapter_b :: chapter_record where
  "chapter_b =
     \<lparr>chapter_name = py ''Ch 1 Motion'', chapter_link = Some (py ''http://kd/b''),
      chapter_image = [], chapter_stats = \<lparr>videos_count = 0, notes_count = 0\<rparr>,
      chapter_folder = None\<rparr>"

definition twins_site :: env where
  "twins_site =
     site [(py ''http://kd/a?view=lectures'', py ''lectures A''),
           (py ''http://kd/a?view=notes'', py ''notes A''),
           (py ''http://kd/b?view=lectures'', py ''lectures B''),
           (py ''http://kd/b?view=notes'', py ''notes B'')] [] []"

text \<open>
  A name made of the nine removed characters and a blank, an item of that name, and a
  site whose only batch it is; the batch page has no chapter card. The output root is
  the one of \<^verbatim>\<open>main\<close>.
\<close>

definition blank_name :: pystr where
  "blank_name = invalid_chars @ [32]"

definition blank_item :: batch_div where
  "blank_item =
     \<lparr>data_batch_name = Some blank_name, batch_title = None,
      study_btn_href = Some (py ''http://kd/b1''), batch_image_src = None\<rparr>"

definition blank_site :: env where
  "blank_site =
     site [(py ''http://kd/'', py ''root page''), (py ''http://kd/b1'', py ''batch page'')]
          [(py ''root page'', [blank_item])] []"

definition kd_best :: pystr where
  "kd_best = py ''/storage/emulated/0/KD_BEST/''"

section \<open>Properties of the fetcher\<close>

lemma get_page_content_from_spec:
  "a < m \<Longrightarrow> get_page_content_from E url m a w = (r, w') \<Longrightarrow>
   \<exists>es. (\<forall>e \<in> set es. \<exists>wl. http_get E wl url = Inl e) \<and>
        log w' = log w @ fetch_error_lines url a es \<and>
        dirs w' = dirs w \<and> files w' = files w \<and>
        ((\<exists>text. r = Some (Some text, True) \<and> a + int (length es) < m \<and>
            requests w' = requests w @ replicate (Suc (length es)) url \<and>
            sleeps w' = sleeps w @ replicate (length es) 2) \<or>
         (r = Some (None, False) \<and> a + int (length es) = m \<and>
            requests w' = requests w @ replicate (length es) url \<and>
            sleeps w' = sleeps w @ replicate (length es - 1) 2))"
proof (induction E url m a w arbitrary: r w' rule: get_page_content_from.induct)
  case (1 E url m a w)
  show ?case
  proof (cases "http_get E w url")
    case (Inr page)
    with "1.prems" have "r = Some (Some page, True)" and "w' = w\<lparr>requests := requests w @ [url]\<rparr>"
      by (simp_all add: get_page_content_from.simps)
    with "1.prems"(1) show ?thesis
      by (intro exI [of _ "[]"]) simp
  next
    case (Inl e)
    let ?w1 = "w\<lparr>requests := requests w @ [url]\<rparr>"
    let ?w2 = "?w1\<lparr>log := log ?w1 @ [fetch_error_line url a e]\<rparr>"
    show ?thesis
    proof (cases "a < m - 1")
      case True
      let ?w3 = "?w2\<lparr>sleeps := sleeps ?w2 @ [2]\<rparr>"
      from "1.prems" Inl True
      have rec: "get_page_content_from E url m (a + 1) ?w3 = (r, w')"
        by (simp add: get_page_content_from.simps [of E url m a w] Let_def)
      from True have lt: "a + 1 < m" by simp
      from "1.IH" [OF "1.prems"(1) Inl refl refl True lt rec]
      obtain es where es:
        "\<forall>e \<in> set es. \<exists>wl. http_get E wl url = Inl e"
        "log w' = log ?w3 @ fetch_error_lines url (a + 1) es"
        "dirs w' = dirs ?w3" "files w' = files ?w3"
        "(\<exists>text. r = Some (Some text, True) \<and> a + 1 + int (length es) < m \<and>
            requests w' = requests ?w3 @ replicate (Suc (length es)) url \<and>
            sleeps w' = sleeps ?w3 @ replicate (length es) 2) \<or>
         (r = Some (None, False) \<and> a + 1 + int (length es) = m \<and>
            requests w' = requests ?w3 @ replicate (length es) url \<and>
            sleeps w' = sleeps ?w3 @ replicate (length es - 1) 2)"
        by blast
      from es(5) lt have sl: "r = Some (None, False) \<Longrightarrow> es \<noteq> []" by auto
      show ?thesis
      proof (intro exI [of _ "e # es"] conjI)
        show "\<forall>x \<in> set (e # es). \<exists>wl. http_get E wl url = Inl x"
          using es(1) Inl by auto
        show "log w' = log w @ fetch_error_lines url a (e # es)"
          using es(2) by simp
        show "dirs w' = dirs w" using es(3) by simp
        show "files w' = files w" using es(4) by simp
        show "(\<exists>text. r = Some (Some text, True) \<and> a + int (length (e # es)) < m \<and>
            requests w' = requests w @ replicate (Suc (length (e # es))) url \<and>
            sleeps w' = sleeps w @ replicate (length (e # es)) 2) \<or>
         (r = Some (None, False) \<and> a + int (length (e # es)) = m \<and>
            requests w' = requests w @ replicate (length (e # es)) url \<and>
            sleeps w' = sleeps w @ replicate (length (e # es) - 1) 2)"
          using es(5)
        proof
          assume "\<exists>text. r = Some (Some text, True) \<and> a + 1 + int (length es) < m \<and>
            requests w' = requests ?w3 @ replicate (Suc (length es)) url \<and>
            sleeps w' = sleeps ?w3 @ replicate (length es) 2"
          then show ?thesis by (auto simp: replicate_app_Cons_same)
        next
          assume f: "r = Some (None, False) \<and> a + 1 + int (length es) = m \<and>
            requests w' = requests ?w3 @ replicate (length es) url \<and>
            sleeps w' = sleeps ?w3 @ replicate (length es - 1) 2"
          with sl obtain x xs where "es = x # xs" by (cases es) auto
          with f show ?thesis by (auto simp: replicate_app_Cons_same)
        qed
      qed
    next
      case False
      with "1.prems" Inl have "r = Some (None, False)" and "w' = ?w2"
        by (simp_all add: get_page_content_from.simps [of E url m a w] Let_def)
      with "1.prems"(1) False Inl show ?thesis
        by (intro exI [of _ "[e]"]) auto
    qed
  qed
qed



lemma get_page_content_default:
  "\<exists>content success w'. get_page_content E url 3 w = (Some (content, success), w')"
proof -
  obtain r w' where rw: "get_page_content_from E url 3 0 w = (r, w')"
    by (cases "get_page_content_from E url 3 0 w")
  from get_page_content_from_spec [OF _ rw] have "r \<noteq> None" by auto
  with rw show ?thesis by (auto simp: get_page_content_def)
qed




section \<open>Properties of the sanitizer\<close>

lemma isspace_32: "isspace 32"
  by (simp add: isspace_def)

lemma remove_invalid_set: "set (remove_invalid n) \<inter> set invalid_chars = {}"
  by (auto simp: remove_invalid_def)

lemma collapse_spaces_set: "set (collapse_spaces s) \<subseteq> insert 32 (set s)"
proof (induction s rule: collapse_spaces.induct)
  case 1
  show ?case by simp
next
  case (2 c cs)
  have "set (dropWhile isspace cs) \<subseteq> set cs"
    by (simp add: set_dropWhileD subsetI)
  with 2 show ?case by (cases "isspace c") auto
qed

lemma strip_set: "set (strip s) \<subseteq> set s"
  unfolding strip_def by (metis set_dropWhileD set_rev subsetI)

lemma collapse_spaces_hd:
  "s \<noteq> [] \<Longrightarrow> \<not> isspace (hd s) \<Longrightarrow> collapse_spaces s \<noteq> [] \<and> hd (collapse_spaces s) = hd s"
  by (cases s) auto

lemma collapse_spaces_no_run: "\<not> has_space_run (collapse_spaces s)"
proof (induction s rule: collapse_spaces.induct)
  case 1
  show ?case by simp
next
  case (2 c cs)
  show ?case
  proof (cases "isspace c")
    case True
    let ?t = "dropWhile isspace cs"
    have IH: "\<not> has_space_run (collapse_spaces ?t)"
      using 2 True by simp
    show ?thesis
    proof (cases "collapse_spaces ?t")
      case Nil
      then show ?thesis using True by simp
    next
      case (Cons d ds)
      have ne: "?t \<noteq> []"
      proof
        assume "?t = []"
        then have "collapse_spaces ?t = []" by (simp only: collapse_spaces.simps)
        with Cons show False by simp
      qed
      then have "\<not> isspace (hd ?t)" by (rule hd_dropWhile)
      moreover from this ne have "hd (collapse_spaces ?t) = hd ?t"
        by (simp add: collapse_spaces_hd)
      ultimately have "\<not> isspace d" using Cons by simp
      with IH Cons True show ?thesis by simp
    qed
  next
    case False
    with 2 show ?thesis by (cases "collapse_spaces cs") auto
  qed
qed

lemma has_space_run_append:
  "has_space_run (xs @ ys) \<longleftrightarrow>
     has_space_run xs \<or> has_space_run ys \<or>
     (xs \<noteq> [] \<and> ys \<noteq> [] \<and> isspace (last xs) \<and> isspace (hd ys))"
proof (induction xs rule: has_space_run.induct)
  case 1
  show ?case by simp
next
  case (2 a)
  show ?case by (cases ys) auto
next
  case (3 a b cs)
  then show ?case by auto
qed

lemma has_space_run_dropWhile: "has_space_run (dropWhile P s) \<Longrightarrow> has_space_run s"
  by (metis has_space_run_append takeWhile_dropWhile_id)

lemma has_space_run_take: "has_space_run (take n s) \<Longrightarrow> has_space_run s"
  by (metis has_space_run_append append_take_drop_id)

lemma has_space_run_rev: "has_space_run (rev s) = has_space_run s"
  by (induction s rule: has_space_run.induct) (auto simp: has_space_run_append)

lemma has_space_run_strip: "has_space_run (strip s) \<Longrightarrow> has_space_run s"
  unfolding strip_def using has_space_run_dropWhile has_space_run_rev by blast

text \<open>
  Three of the four properties the sanitizer is meant to have hold on every name: no
  removed character comes back, no two whitespace characters are neighbours, and the
  length is at most 100. The result also never starts with whitespace.
\<close>

lemma clean_filename_no_invalid: "c \<in> set (clean_filename n) \<Longrightarrow> c \<notin> set invalid_chars"
proof -
  assume "c \<in> set (clean_filename n)"
  then have "c \<in> set (strip (collapse_spaces (remove_invalid n)))"
    unfolding clean_filename_def by (rule in_set_takeD)
  then have "c \<in> insert 32 (set (remove_invalid n))"
    using strip_set collapse_spaces_set by blast
  then show ?thesis
    using remove_invalid_set [of n] by (auto simp: invalid_chars_def)
qed

lemma clean_filename_no_space_run: "\<not> has_space_run (clean_filename n)"
  unfolding clean_filename_def
  using collapse_spaces_no_run has_space_run_strip has_space_run_take by blast

lemma clean_filename_length: "length (clean_filename n) \<le> 100"
  by (simp add: clean_filename_def)

lemma strip_no_leading: "strip s \<noteq> [] \<Longrightarrow> \<not> isspace (hd (strip s))"
proof -
  assume ne: "strip s \<noteq> []"
  let ?t = "dropWhile isspace s"
  obtain n where "strip s = take n ?t"
    unfolding strip_def by (metis rev_rev_ident dropWhile_eq_drop rev_drop length_rev)
  with ne have "hd (strip s) = hd ?t" and "?t \<noteq> []"
    by (auto simp: hd_take)
  then show ?thesis using hd_dropWhile by metis
qed

lemma clean_filename_no_leading:
  "clean_filename n \<noteq> [] \<Longrightarrow> \<not> isspace (hd (clean_filename n))"
  unfolding clean_filename_def using strip_no_leading
  by (metis hd_take take_eq_Nil not_gr_zero)

lemma clean_filename_no_slash: "\<not> startswith (clean_filename n) [47]"
proof
  assume "startswith (clean_filename n) [47]"
  then have "47 \<in> set (clean_filename n)"
    by (cases "clean_filename n") (auto simp: startswith_def)
  then show False
    using clean_filename_no_invalid [of 47 n] by (simp add: invalid_chars_def)
qed

subsection \<open>Names cut at a blank\<close>

lemma remove_invalid_append: "remove_invalid (s @ t) = remove_invalid s @ remove_invalid t"
  by (simp add: remove_invalid_def)

lemma remove_invalid_plain: "plain s \<Longrightarrow> remove_invalid s = s"
  by (simp add: remove_invalid_def plain_def)

lemma collapse_spaces_plain: "plain s \<Longrightarrow> collapse_spaces (s @ t) = s @ collapse_spaces t"
  by (induction s) (simp_all add: plain_def)

lemma strip_plain_space: "plain s \<Longrightarrow> s \<noteq> [] \<Longrightarrow> strip (s @ [32]) = s"
proof -
  assume p: "plain s" and ne: "s \<noteq> []"
  then have h: "\<not> isspace (hd s)" and l: "\<not> isspace (last s)"
    by (auto simp: plain_def)
  have "dropWhile isspace (s @ [32]) = s @ [32]"
    using h ne by (cases s) auto
  moreover have "dropWhile isspace (rev (s @ [32])) = rev s"
    using l ne by (cases "rev s") (auto simp: isspace_32 last_rev hd_rev)
  ultimately show ?thesis by (simp add: strip_def)
qed

lemma strip_plain_mid:
  "plain s \<Longrightarrow> s \<noteq> [] \<Longrightarrow> \<not> isspace b \<Longrightarrow> strip (s @ [32, b]) = s @ [32, b]"
proof -
  assume p: "plain s" and ne: "s \<noteq> []" and b: "\<not> isspace b"
  then have h: "\<not> isspace (hd s)" by (auto simp: plain_def)
  have "dropWhile isspace (s @ [32, b]) = s @ [32, b]"
    using h ne by (cases s) auto
  moreover have "dropWhile isspace (rev (s @ [32, b])) = rev (s @ [32, b])"
    using b by simp
  ultimately show ?thesis by (simp add: strip_def)
qed

lemma clean_filename_cut:
  assumes "plain s" and "length s = 99" and "plain [b]"
  shows "clean_filename (s @ [32, b]) = s @ [32]"
proof -
  from assms have ne: "s \<noteq> []" by auto
  have b: "\<not> isspace b" "b \<notin> set invalid_chars"
    using assms(3) by (auto simp: plain_def)
  have 1: "remove_invalid (s @ [32, b]) = s @ [32, b]"
    using assms(1) b
    by (simp add: remove_invalid_append remove_invalid_plain)
       (simp add: remove_invalid_def invalid_chars_def)
  have 2: "collapse_spaces (s @ [32, b]) = s @ [32, b]"
    using assms(1) b by (simp add: collapse_spaces_plain isspace_32)
  have 3: "strip (s @ [32, b]) = s @ [32, b]"
    using assms(1) ne b(1) by (rule strip_plain_mid)
  show ?thesis by (simp add: clean_filename_def 1 2 3 assms(2))
qed

lemma clean_filename_again:
  assumes "plain s" and "length s = 99"
  shows "clean_filename (s @ [32]) = s"
proof -
  from assms have ne: "s \<noteq> []" by auto
  have 1: "remove_invalid (s @ [32]) = s @ [32]"
    using assms(1)
    by (simp add: remove_invalid_append remove_invalid_plain)
       (simp add: remove_invalid_def invalid_chars_def)
  have 2: "collapse_spaces (s @ [32]) = s @ [32]"
    using assms(1) by (simp add: collapse_spaces_plain isspace_32)
  have 3: "strip (s @ [32]) = s"
    using assms(1) ne by (rule strip_plain_space)
  show ?thesis by (simp add: clean_filename_def 1 2 3 assms(2))
qed

lemma plain_a: "plain (replicate n 97)"
  by (simp add: plain_def isspace_def invalid_chars_def)

lemma plain_b: "plain [98]"
  by (simp add: plain_def isspace_def invalid_chars_def)

text \<open>
  Claim C2 (the sanitized name has none of the removed characters, no run of whitespace,
  is equal to its own trimmed form and has at most 100 characters). The name of 99
  letters \<^verbatim>\<open>a\<close>, a blank and a \<^verbatim>\<open>b\<close> is already stripped; the slice then cuts it after
  the blank, so the result ends with a blank and is not equal to its trimmed form.
\<close>

theorem clean_filename_not_trimmed:
  "clean_filename (replicate 99 97 @ [32, 98]) = replicate 99 97 @ [32] \<and>
   strip (clean_filename (replicate 99 97 @ [32, 98])) = replicate 99 97 \<and>
   strip (clean_filename (replicate 99 97 @ [32, 98])) \<noteq> clean_filename (replicate 99 97 @ [32, 98])"
proof -
  have 1: "clean_filename (replicate 99 97 @ [32, 98]) = replicate 99 97 @ [32]"
    by (rule clean_filename_cut) (simp_all add: plain_a plain_b)
  have "strip (replicate 99 97 @ [32]) = replicate 99 97"
    by (rule strip_plain_space) (simp_all add: plain_a)
  with 1 show ?thesis by simp
qed

text \<open>
  Claim C3 (the sanitizer is idempotent). On the same name the second application strips
  the blank the first one left at the end, so the two results differ.
\<close>

theorem clean_filename_not_idempotent:
  "clean_filename (clean_filename (replicate 99 97 @ [32, 98])) = replicate 99 97 \<and>
   clean_filename (clean_filename (replicate 99 97 @ [32, 98])) \<noteq>
     clean_filename (replicate 99 97 @ [32, 98])"
proof -
  have 1: "clean_filename (replicate 99 97 @ [32, 98]) = replicate 99 97 @ [32]"
    by (rule clean_filename_cut) (simp_all add: plain_a plain_b)
  have 2: "clean_filename (replicate 99 97 @ [32]) = replicate 99 97"
    by (rule clean_filename_again) (simp_all add: plain_a)
  show ?thesis by (simp add: 1 2)
qed

section \<open>Running statements\<close>

lemma bind_ret [simp]: "bind (ret x) f w = f x w"
  by (simp add: bind_def ret_def)

lemma bind_print [simp]: "bind (print l) f w = f () (w\<lparr>log := log w @ [l]\<rparr>)"
  by (simp add: bind_def print_def)

lemma py_append: "py a @ py b = py (a @ b)"
  by (simp add: py_def)

lemma py_append_assoc: "py a @ py b @ c = py (a @ b) @ c"
  by (simp add: py_def)

lemma fetch_ok:
  "http_get E w url = Inr t \<Longrightarrow>
   fetch E url w = (Inr (Some t, True), w\<lparr>requests := requests w @ [url]\<rparr>)"
  by (simp add: fetch_def get_page_content_def get_page_content_from.simps)

lemma site_simps:
  "http_get (site pages bi cc) w url =
     (case map_of pages url of Some t \<Rightarrow> Inr t | None \<Rightarrow> Inl (Error (py ''404 Client Error'')))"
  "makedirs_error (site pages bi cc) w p = None"
  "open_error (site pages bi cc) w p = None"
  "find_batch_items (site pages bi cc) content = (case map_of bi content of Some ds \<Rightarrow> ds | None \<Rightarrow> [])"
  "find_chapter_cards (site pages bi cc) content = (case map_of cc content of Some ds \<Rightarrow> ds | None \<Rightarrow> [])"
  "urljoin (site pages bi cc) base u = Inr u"
  "urlparse (site pages bi cc) = split_query"
  "geturl (site pages bi cc) = unsplit_query"
  "render_main_index (site pages bi cc) batches = py ''All Batches: '' @ concat (map batch_name batches)"
  "render_batch_index (site pages bi cc) b chapters = py ''Batch: '' @ batch_name b"
  by (simp_all add: site_def)

lemma bind_lift_Inr [simp]: "bind (lift (Inr x)) f w = f x w"
  by (simp add: bind_def lift_def)

lemma bind_lift_Inl [simp]: "bind (lift (Inl e)) f w = (Inl e, w)"
  by (simp add: bind_def lift_def)

lemma bind_Inr: "m w = (Inr x, w') \<Longrightarrow> bind m f w = f x w'"
  by (simp add: bind_def)

lemma bind_Inl: "m w = (Inl e, w') \<Longrightarrow> bind m f w = (Inl e, w')"
  by (simp add: bind_def)

lemma py_eq_iff: "py a = py b \<longleftrightarrow> a = b"
proof -
  have "inj (of_char :: char \<Rightarrow> nat)" by (rule injI) simp
  then have "inj (map (of_char :: char \<Rightarrow> nat))" by simp
  then show ?thesis unfolding py_def by (simp add: inj_eq)
qed

lemma fetch_down:
  assumes "\<forall>w. http_get E w url = Inl e"
  shows "fetch E url w =
           (Inr (None, False),
            w\<lparr>requests := requests w @ [url, url, url],
              log := log w @ fetch_error_lines url 0 [e, e, e],
              sleeps := sleeps w @ [2, 2]\<rparr>)"
  using assms
  by (simp add: fetch_def get_page_content_def get_page_content_from.simps)

lemma fetch_world:
  "fetch E url w = (r, w') \<Longrightarrow> dirs w' = dirs w \<and> files w' = files w"
proof -
  assume a: "fetch E url w = (r, w')"
  obtain x w1 where g: "get_page_content E url 3 w = (x, w1)"
    by (cases "get_page_content E url 3 w")
  from get_page_content_from_spec [of 0 3 E url w x w1] g
  have "dirs w1 = dirs w \<and> files w1 = files w"
    by (auto simp: get_page_content_def)
  with a g show ?thesis by (auto simp: fetch_def split: option.splits)
qed

lemma os_makedirs_ok:
  "p \<noteq> [] \<Longrightarrow> makedirs_error E w p = None \<Longrightarrow>
   os_makedirs E p w = (Inr (), w\<lparr>dirs := insert p (dirs w)\<rparr>)"
  by (simp add: os_makedirs_def)

lemma os_makedirs_world:
  "os_makedirs E p w = (r, w') \<Longrightarrow>
   log w' = log w \<and> requests w' = requests w \<and> sleeps w' = sleeps w \<and> files w' = files w"
  by (auto simp: os_makedirs_def split: if_splits option.splits)

lemma save_html_ok:
  assumes "os_path_dirname fp = d" and "d \<noteq> []"
    and "makedirs_error E w d = None"
    and "open_error E (w\<lparr>dirs := insert d (dirs w)\<rparr>) fp = None"
  shows "save_html E content fp w =
           (Inr True, w\<lparr>dirs := insert d (dirs w), files := (files w)(fp \<mapsto> content)\<rparr>)"
  using assms
  by (simp add: save_html_def try_except_def bind_def os_makedirs_def write_file_def ret_def)

lemma save_html_never_raises:
  "\<exists>b w'. save_html E content fp w = (Inr b, w') \<and> requests w' = requests w \<and> sleeps w' = sleeps w"
  by (auto simp: save_html_def try_except_def bind_def os_makedirs_def write_file_def ret_def
        print_def split: option.splits)

lemma get_page_content_from_requests:
  assumes "a < m" and "get_page_content_from E url m a w = (x, w1)"
  shows "\<exists>r n. x = Some r \<and> dirs w1 = dirs w \<and> files w1 = files w \<and>
           requests w1 = requests w @ replicate n url"
  using get_page_content_from_spec [OF assms]
  apply (elim exE conjE disjE)
   apply (rule_tac x = "(Some text, True)" in exI)
   apply (rule_tac x = "Suc (length es)" in exI)
   apply simp
  apply (rule_tac x = "(None, False)" in exI)
  apply (rule_tac x = "length es" in exI)
  apply simp
  done

lemma fetch_never_raises:
  "\<exists>content success n w'. fetch E url w = (Inr (content, success), w') \<and>
     dirs w' = dirs w \<and> files w' = files w \<and> requests w' = requests w @ replicate n url"
proof -
  obtain x w1 where g: "get_page_content_from E url 3 0 w = (x, w1)"
    by (cases "get_page_content_from E url 3 0 w")
  have "(0::int) < 3" by simp
  from get_page_content_from_requests [OF this g]
  obtain r n where "x = Some r" "dirs w1 = dirs w" "files w1 = files w"
    "requests w1 = requests w @ replicate n url"
    by blast
  with g show ?thesis
    by (cases r) (auto simp: fetch_def get_page_content_def)
qed

lemma py_snoc: "py a @ 47 # py b = py (a @ ''/'' @ b)"
  by (simp add: py_def)

lemma py_nonempty: "py s \<noteq> [] \<longleftrightarrow> s \<noteq> []"
  by (simp add: py_def)

section \<open>Properties of the batch extraction\<close>

text \<open>
  The loop of \<^verbatim>\<open>extract_batches\<close> never raises: it returns the records of the items
  whose extraction gives one, after the records it started with, and prints one line
  for each item whose extraction raises.
\<close>

lemma extract_batch_divs_closed:
  "\<exists>bs w'. extract_batch_divs E main_url ds acc w = (Inr (acc @ bs), w') \<and>
      set bs = {b. \<exists>d \<in> set ds. extract_batch E main_url d = Inr (Some b)} \<and>
      w' = w\<lparr>log := log w @ batch_error_lines E main_url ds\<rparr>"
proof (induction ds arbitrary: acc w)
  case Nil
  show ?case by (simp add: ret_def batch_error_lines_def)
next
  case (Cons d ds)
  show ?case
  proof (cases "extract_batch E main_url d")
    case (Inl e)
    from Cons [of acc "w\<lparr>log := log w @ [py ''Error processing batch: '' @ message e]\<rparr>"] Inl
    show ?thesis by (auto simp: batch_error_lines_def)
  next
    case (Inr ob)
    show ?thesis
    proof (cases ob)
      case None
      with Cons [of acc w] Inr show ?thesis by (auto simp: batch_error_lines_def)
    next
      case (Some b)
      from Cons [of "acc @ [b]" w] obtain bs w' where
        h: "extract_batch_divs E main_url ds (acc @ [b]) w = (Inr ((acc @ [b]) @ bs), w')"
           "set bs = {b. \<exists>d \<in> set ds. extract_batch E main_url d = Inr (Some b)}"
           "w' = w\<lparr>log := log w @ batch_error_lines E main_url ds\<rparr>"
        by blast
      show ?thesis
      proof (intro exI [of _ "b # bs"] exI [of _ w'] conjI)
        show "extract_batch_divs E main_url (d # ds) acc w = (Inr (acc @ b # bs), w')"
          using h(1) Inr Some by simp
        show "set (b # bs) = {b. \<exists>d \<in> set (d # ds). extract_batch E main_url d = Inr (Some b)}"
          using h(2) Inr Some by auto
        show "w' = w\<lparr>log := log w @ batch_error_lines E main_url (d # ds)\<rparr>"
          using h(3) Inr Some by (simp add: batch_error_lines_def)
      qed
    qed
  qed
qed





text \<open>
  \<^verbatim>\<open>extract_batches\<close> never raises, requests nothing but the root page, and leaves the
  directories and the files as they are.
\<close>

lemma extract_batches_never_raises:
  "\<exists>batches n w'. extract_batches E main_url w = (Inr batches, w') \<and>
     dirs w' = dirs w \<and> files w' = files w \<and>
     requests w' = requests w @ replicate n main_url"
proof -
  let ?w0 = "w\<lparr>log := log w @ [py ''Fetching batches from: '' @ main_url]\<rparr>"
  from fetch_never_raises [of E main_url ?w0]
  obtain content success n w1 where f: "fetch E main_url ?w0 = (Inr (content, success), w1)"
    and w1: "dirs w1 = dirs w" "files w1 = files w" "requests w1 = requests w @ replicate n main_url"
    by auto
  show ?thesis
  proof (cases success)
    case False
    with f w1 show ?thesis
      by (auto simp: extract_batches_def bind_def print_def ret_def)
  next
    case True
    let ?ds = "find_batch_items E (case content of Some c \<Rightarrow> c | None \<Rightarrow> [])"
    from extract_batch_divs_closed [of E main_url ?ds "[]" w1]
    obtain bs where "extract_batch_divs E main_url ?ds [] w1 =
        (Inr bs, w1\<lparr>log := log w1 @ batch_error_lines E main_url ?ds\<rparr>)"
      by auto
    with f w1 True show ?thesis
      by (auto simp: extract_batches_def bind_def print_def)
  qed
qed

section \<open>Properties of the paths\<close>

lemma os_path_join_nonempty: "b \<noteq> [] \<Longrightarrow> os_path_join a b \<noteq> []"
  by (auto simp: os_path_join_def)

lemma endswith_single: "endswith a [c] \<longleftrightarrow> a \<noteq> [] \<and> last a = c"
proof (cases a rule: rev_cases)
  case Nil
  then show ?thesis by (simp add: endswith_def)
next
  case (snoc xs x)
  then show ?thesis by (auto simp: endswith_def)
qed

lemma os_path_join_plain:
  "a \<noteq> [] \<Longrightarrow> last a \<noteq> 47 \<Longrightarrow> \<not> startswith b [47] \<Longrightarrow> os_path_join a b = a @ [47] @ b"
  by (simp add: os_path_join_def endswith_single)

lemma os_path_dirname_file:
  assumes "d \<noteq> []" and "last d \<noteq> 47" and "47 \<notin> set f"
  shows "os_path_dirname (d @ [47] @ f) = d"
proof -
  have "rev (d @ [47] @ f) = rev f @ 47 # rev d" by simp
  moreover have "takeWhile (\<lambda>c. c \<noteq> 47) (rev f @ 47 # rev d) = rev f"
    using assms(3) by (subst takeWhile_append2) auto
  ultimately have "takeWhile (\<lambda>c. c \<noteq> 47) (rev (d @ [47] @ f)) = rev f"
    by (simp only:)
  then have rf: "rfind_slash (d @ [47] @ f) = Suc (length d)"
    by (simp add: rfind_slash_def)
  have hd: "take (Suc (length d)) (d @ [47] @ f) = d @ [47]" by simp
  have ne: "d @ [47] \<noteq> replicate (length (d @ [47])) 47"
  proof
    assume "d @ [47] = replicate (length (d @ [47])) 47"
    then have "set (d @ [47]) \<subseteq> {47}" by (metis set_replicate_conv_if subset_refl empty_subsetI)
    with assms(1,2) show False using last_in_set by fastforce
  qed
  have "rev (dropWhile (\<lambda>c. c = 47) (rev (d @ [47]))) = d"
    using assms(1,2) by (cases "rev d") (auto simp: last_rev hd_rev)
  with rf hd ne show ?thesis
    by (simp add: os_path_dirname_def Let_def del: replicate.simps)
qed

lemma last_os_path_join: "b \<noteq> [] \<Longrightarrow> last (os_path_join a b) = last b"
  by (auto simp: os_path_join_def)

lemma index_no_slash: "47 \<notin> set (py ''index.html'')" "\<not> startswith (py ''index.html'') [47]"
  by (simp_all add: py_def startswith_def)

lemma view_index_path:
  assumes "b \<noteq> []" and "last b \<noteq> 47"
  shows "os_path_join (os_path_join p b) (py ''index.html'') = os_path_join p b @ [47] @ py ''index.html''"
    and "os_path_dirname (os_path_join (os_path_join p b) (py ''index.html'')) = os_path_join p b"
proof -
  have ne: "os_path_join p b \<noteq> []" using assms(1) by (rule os_path_join_nonempty)
  have l: "last (os_path_join p b) \<noteq> 47" using assms by (simp add: last_os_path_join)
  show 1: "os_path_join (os_path_join p b) (py ''index.html'') = os_path_join p b @ [47] @ py ''index.html''"
    using ne l index_no_slash(2) by (rule os_path_join_plain)
  show "os_path_dirname (os_path_join (os_path_join p b) (py ''index.html'')) = os_path_join p b"
    unfolding 1 using ne l index_no_slash(1) by (rule os_path_dirname_file)
qed

lemma folder_names:
  "py ''Lectures'' \<noteq> []" "last (py ''Lectures'') \<noteq> 47"
  "py ''Notes'' \<noteq> []" "last (py ''Notes'') \<noteq> 47"
  by (simp_all add: py_def)

lemma os_path_join_inject:
  assumes "\<not> startswith b [47]" and "\<not> startswith b' [47]"
  shows "os_path_join a b = os_path_join a b' \<longleftrightarrow> b = b'"
  using assms by (auto simp: os_path_join_def)

lemma os_path_join_empty:
  "os_path_join a [] = (if a = [] \<or> endswith a [47] then a else a @ [47])"
  by (simp add: os_path_join_def startswith_def)

lemma empty_folder_index:
  "os_path_join (os_path_join base_dir []) (py ''index.html'') = os_path_join base_dir (py ''index.html'')"
  by (simp add: os_path_join_def startswith_def endswith_single index_no_slash [unfolded startswith_def])

section \<open>Properties of the views of a chapter\<close>

lemma create_view_no_link:
  "\<not> truthy (chapter_link c) \<Longrightarrow>
   create_view E c p folder view = os_makedirs E (os_path_join p folder)"
proof
  fix w
  assume "\<not> truthy (chapter_link c)"
  then show "create_view E c p folder view w = os_makedirs E (os_path_join p folder) w"
    by (cases "os_makedirs E (os_path_join p folder) w")
       (auto simp: create_view_def Let_def bind_def ret_def split: sum.splits)
qed

text \<open>
  Claim C8 (a chapter without a link gets its two folders, no fetch and no index page).
  Without a link \<^verbatim>\<open>create_chapter_views\<close> makes no request, writes no file and prints
  nothing, whatever the file system does; and when the two directory creations raise
  nothing, its whole effect is the two folders \<^verbatim>\<open>Lectures\<close> and \<^verbatim>\<open>Notes\<close>.
\<close>

theorem create_chapter_views_no_link:
  assumes "\<not> truthy (chapter_link c)"
  shows "requests (snd (create_chapter_views E c p w)) = requests w \<and>
         files (snd (create_chapter_views E c p w)) = files w \<and>
         log (snd (create_chapter_views E c p w)) = log w \<and>
         (makedirs_error E w (os_path_join p (py ''Lectures'')) = None \<longrightarrow>
          makedirs_error E (w\<lparr>dirs := insert (os_path_join p (py ''Lectures'')) (dirs w)\<rparr>)
            (os_path_join p (py ''Notes'')) = None \<longrightarrow>
          create_chapter_views E c p w =
            (Inr (), w\<lparr>dirs := insert (os_path_join p (py ''Notes''))
                              (insert (os_path_join p (py ''Lectures'')) (dirs w))\<rparr>))"
proof -
  let ?L = "os_path_join p (py ''Lectures'')" and ?N = "os_path_join p (py ''Notes'')"
  have neL: "?L \<noteq> []" and neN: "?N \<noteq> []"
    by (simp_all add: os_path_join_nonempty folder_names)
  have run: "create_chapter_views E c p w =
      (case os_makedirs E ?L w of
         (Inl e, w') \<Rightarrow> (Inl e, w')
       | (Inr u, w') \<Rightarrow> os_makedirs E ?N w')"
    using assms by (simp add: create_chapter_views_def bind_def create_view_no_link)
  obtain r1 w1 where 1: "os_makedirs E ?L w = (r1, w1)" by (cases "os_makedirs E ?L w")
  obtain r2 w2 where 2: "os_makedirs E ?N w1 = (r2, w2)" by (cases "os_makedirs E ?N w1")
  from os_makedirs_world [OF 1] os_makedirs_world [OF 2]
  have "requests (snd (create_chapter_views E c p w)) = requests w \<and>
        files (snd (create_chapter_views E c p w)) = files w \<and>
        log (snd (create_chapter_views E c p w)) = log w"
    by (cases r1) (simp_all add: run 1 2)
  moreover have "create_chapter_views E c p w = (Inr (), w\<lparr>dirs := insert ?N (insert ?L (dirs w))\<rparr>)"
    if "makedirs_error E w ?L = None"
      and "makedirs_error E (w\<lparr>dirs := insert ?L (dirs w)\<rparr>) ?N = None"
    using that neL neN by (simp add: run os_makedirs_ok)
  ultimately show ?thesis by blast
qed

theorem create_chapter_views_no_link_witness:
  "\<not> truthy (chapter_link no_link_chapter) \<and>
   create_chapter_views (site [] [] []) no_link_chapter (py ''/out/B/Ch 1'') world0 =
     (Inr (), world0\<lparr>dirs := {py ''/out/B/Ch 1/Notes'', py ''/out/B/Ch 1/Lectures''}\<rparr>)"
proof -
  have 1: "\<not> truthy (chapter_link no_link_chapter)"
    by (simp add: no_link_chapter_def truthy_def)
  have L: "os_path_join (py ''/out/B/Ch 1'') (py ''Lectures'') = py ''/out/B/Ch 1/Lectures''"
    and N: "os_path_join (py ''/out/B/Ch 1'') (py ''Notes'') = py ''/out/B/Ch 1/Notes''"
    by (simp_all add: os_path_join_def py_def startswith_def endswith_def)
  from create_chapter_views_no_link [OF 1, of "site [] [] []" "py ''/out/B/Ch 1''" world0]
  have "create_chapter_views (site [] [] []) no_link_chapter (py ''/out/B/Ch 1'') world0 =
     (Inr (), world0\<lparr>dirs := {py ''/out/B/Ch 1/Notes'', py ''/out/B/Ch 1/Lectures''}\<rparr>)"
    by (simp add: site_simps L N world0_def)
  with 1 show ?thesis by simp
qed

text \<open>
  Claim C7 (a lectures view whose fetch fails on all attempts does not stop the notes
  view). For a chapter with a link whose two view URLs can be built, on a file system
  that makes the two folders and opens the notes index page: when the fetch of the
  lectures view returns the failure pair, \<^verbatim>\<open>create_chapter_views\<close> raises nothing and goes
  on to fetch the notes view in the world the failed fetch left; when that fetch
  succeeds with \<open>page\<close>, the result is the world after it with \<open>page\<close> written as the
  index page of the folder \<^verbatim>\<open>Notes\<close>.
\<close>

theorem notes_view_after_failed_lectures:
  assumes "chapter_link c = Some link" and "link \<noteq> []"
    and "view_url E link (py ''lectures'') = Inr lu"
    and "view_url E link (py ''notes'') = Inr nu"
    and "\<forall>w'. makedirs_error E w' (os_path_join p (py ''Lectures'')) = None"
    and "\<forall>w'. makedirs_error E w' (os_path_join p (py ''Notes'')) = None"
    and "\<forall>w'. open_error E w' (os_path_join (os_path_join p (py ''Notes'')) (py ''index.html'')) = None"
    and "fetch E lu (w\<lparr>dirs := insert (os_path_join p (py ''Lectures'')) (dirs w)\<rparr>) =
           (Inr (None, False), w2)"
    and "fetch E nu (w2\<lparr>dirs := insert (os_path_join p (py ''Notes'')) (dirs w2)\<rparr>) =
           (Inr (Some page, True), w3)"
  shows "create_chapter_views E c p w =
           (Inr (),
            w3\<lparr>dirs := insert (os_path_join p (py ''Notes'')) (dirs w3),
               files := (files w3)
                 (os_path_join (os_path_join p (py ''Notes'')) (py ''index.html'') \<mapsto> page),
               log := log w3 @
                 [py ''Created notes index.html at '' @
                  os_path_join (os_path_join p (py ''Notes'')) (py ''index.html'')]\<rparr>)"
proof -
  let ?L = "os_path_join p (py ''Lectures'')" and ?N = "os_path_join p (py ''Notes'')"
  let ?idx = "os_path_join ?N (py ''index.html'')"
  have neL: "?L \<noteq> []" and neN: "?N \<noteq> []"
    by (simp_all add: os_path_join_nonempty folder_names)
  have t: "truthy (chapter_link c)" using assms(1,2) by (simp add: truthy_def)
  have mkL: "os_makedirs E ?L w = (Inr (), w\<lparr>dirs := insert ?L (dirs w)\<rparr>)"
    using neL assms(5) by (simp add: os_makedirs_ok)
  have lect: "create_view E c p (py ''Lectures'') (py ''lectures'') w = (Inr (), w2)"
    using t assms(1,3,8) mkL
    by (simp add: create_view_def Let_def bind_def lift_def ret_def)
  have mkN: "os_makedirs E ?N w2 = (Inr (), w2\<lparr>dirs := insert ?N (dirs w2)\<rparr>)"
    using neN assms(6) by (simp add: os_makedirs_ok)
  have dn: "os_path_dirname ?idx = ?N"
    by (rule view_index_path(2)) (simp_all add: folder_names)
  have save: "save_html E page ?idx w3 =
      (Inr True, w3\<lparr>dirs := insert ?N (dirs w3), files := (files w3)(?idx \<mapsto> page)\<rparr>)"
    using dn neN assms(6,7) by (intro save_html_ok) simp_all
  have nv: "create_view E c p (py ''Notes'') (py ''notes'') w2 =
      (Inr (), w3\<lparr>dirs := insert ?N (dirs w3), files := (files w3)(?idx \<mapsto> page),
                  log := log w3 @ [py ''Created notes index.html at '' @ ?idx]\<rparr>)"
    using t assms(1,4,9)
    using mkN save
    by (simp add: create_view_def Let_def bind_def lift_def print_def py_append_assoc)
  show ?thesis
    by (simp add: create_chapter_views_def bind_def lect nv)
qed

lemma view_url_example:
  "view_url (site pages bi cc) (py ''http://kd/c1'') (py ''lectures'') = Inr (py ''http://kd/c1?view=lectures'')"
  "view_url (site pages bi cc) (py ''http://kd/c1'') (py ''notes'') = Inr (py ''http://kd/c1?view=notes'')"
  by (simp_all add: view_url_def site_simps split_query_def unsplit_query_def replace_view_def
        parse_qs_def parse_qsl_def urlencode_def quote_plus_def quote_def quote_from_bytes_def
        encode_char_def always_safe_def py_def)

theorem notes_view_after_failed_lectures_witness:
  "fetch notes_only_site (py ''http://kd/c1?view=lectures'')
     (world0\<lparr>dirs := {py ''/out/B/Ch 1/Lectures''}\<rparr>) =
     (Inr (None, False),
      world0\<lparr>dirs := {py ''/out/B/Ch 1/Lectures''},
             requests := replicate 3 (py ''http://kd/c1?view=lectures''),
             log := fetch_error_lines (py ''http://kd/c1?view=lectures'') 0
                      (replicate 3 (Error (py ''404 Client Error''))),
             sleeps := [2, 2]\<rparr>) \<and>
   fst (create_chapter_views notes_only_site linked_chapter (py ''/out/B/Ch 1'') world0) = Inr () \<and>
   files (snd (create_chapter_views notes_only_site linked_chapter (py ''/out/B/Ch 1'') world0))
     (py ''/out/B/Ch 1/Notes/index.html'') = Some (py ''notes page'') \<and>
   files (snd (create_chapter_views notes_only_site linked_chapter (py ''/out/B/Ch 1'') world0))
     (py ''/out/B/Ch 1/Lectures/index.html'') = None"
proof -
  let ?E = notes_only_site and ?p = "py ''/out/B/Ch 1''"
  let ?lu = "py ''http://kd/c1?view=lectures''" and ?nu = "py ''http://kd/c1?view=notes''"
  let ?w2 = "world0\<lparr>dirs := {py ''/out/B/Ch 1/Lectures''},
             requests := replicate 3 ?lu,
             log := fetch_error_lines ?lu 0 (replicate 3 (Error (py ''404 Client Error''))),
             sleeps := [2, 2]\<rparr>"
  let ?w3 = "?w2\<lparr>dirs := {py ''/out/B/Ch 1/Notes'', py ''/out/B/Ch 1/Lectures''},
                 requests := replicate 3 ?lu @ [?nu]\<rparr>"
  have L: "os_path_join ?p (py ''Lectures'') = py ''/out/B/Ch 1/Lectures''"
    and N: "os_path_join ?p (py ''Notes'') = py ''/out/B/Ch 1/Notes''"
    and I: "os_path_join (py ''/out/B/Ch 1/Notes'') (py ''index.html'') = py ''/out/B/Ch 1/Notes/index.html''"
    by (simp_all add: os_path_join_def py_def startswith_def endswith_def)
  have 1: "chapter_link linked_chapter = Some (py ''http://kd/c1'')" and 2: "py ''http://kd/c1'' \<noteq> []"
    by (simp_all add: linked_chapter_def py_def)
  have 3: "view_url ?E (py ''http://kd/c1'') (py ''lectures'') = Inr ?lu"
    and 4: "view_url ?E (py ''http://kd/c1'') (py ''notes'') = Inr ?nu"
    by (simp_all add: notes_only_site_def view_url_example)
  have 5: "\<forall>w'. makedirs_error ?E w' (os_path_join ?p (py ''Lectures'')) = None"
    and 6: "\<forall>w'. makedirs_error ?E w' (os_path_join ?p (py ''Notes'')) = None"
    and 7: "\<forall>w'. open_error ?E w' (os_path_join (os_path_join ?p (py ''Notes'')) (py ''index.html'')) = None"
    by (simp_all add: notes_only_site_def site_simps)
  have down: "\<forall>w. http_get ?E w ?lu = Inl (Error (py ''404 Client Error''))"
    by (simp add: notes_only_site_def site_simps py_eq_iff)
  have 8: "fetch ?E ?lu (world0\<lparr>dirs := insert (os_path_join ?p (py ''Lectures'')) (dirs world0)\<rparr>) =
      (Inr (None, False), ?w2)"
    by (simp add: fetch_down [OF down] L world0_def numeral_3_eq_3)
  have up: "http_get ?E w ?nu = Inr (py ''notes page'')" for w
    by (simp add: notes_only_site_def site_simps)
  have 9: "fetch ?E ?nu (?w2\<lparr>dirs := insert (os_path_join ?p (py ''Notes'')) (dirs ?w2)\<rparr>) =
      (Inr (Some (py ''notes page''), True), ?w3)"
    by (simp add: fetch_ok [OF up] N world0_def)
  from notes_view_after_failed_lectures [OF 1 2 3 4 5 6 7 8 9]
  have "create_chapter_views ?E linked_chapter ?p world0 =
      (Inr (), ?w3\<lparr>dirs := insert (py ''/out/B/Ch 1/Notes'') (dirs ?w3),
                   files := (files ?w3)(py ''/out/B/Ch 1/Notes/index.html'' \<mapsto> py ''notes page''),
                   log := log ?w3 @ [py ''Created notes index.html at '' @ py ''/out/B/Ch 1/Notes/index.html'']\<rparr>)"
    by (simp only: L N I)
  moreover have "fetch ?E ?lu (world0\<lparr>dirs := {py ''/out/B/Ch 1/Lectures''}\<rparr>) = (Inr (None, False), ?w2)"
    using 8 by (simp add: L world0_def)
  ultimately show ?thesis
    by (simp add: world0_def py_eq_iff)
qed

subsection \<open>The views on an example site\<close>

lemma fetch_site:
  "map_of pages url = Some t \<Longrightarrow>
   fetch (site pages bi cc) url w = (Inr (Some t, True), w\<lparr>requests := requests w @ [url]\<rparr>)"
  by (rule fetch_ok) (simp add: site_simps)

lemma os_makedirs_site:
  "p \<noteq> [] \<Longrightarrow> os_makedirs (site pages bi cc) p w = (Inr (), w\<lparr>dirs := insert p (dirs w)\<rparr>)"
  by (rule os_makedirs_ok) (simp_all add: site_simps)

lemma save_html_site:
  "os_path_dirname fp \<noteq> [] \<Longrightarrow>
   save_html (site pages bi cc) content fp w =
     (Inr True, w\<lparr>dirs := insert (os_path_dirname fp) (dirs w), files := (files w)(fp \<mapsto> content)\<rparr>)"
  by (rule save_html_ok) (simp_all add: site_simps)

lemma create_view_site:
  assumes "chapter_link c = Some link" and "link \<noteq> []"
    and "view_url (site pages bi cc) link view = Inr u"
    and "map_of pages u = Some page"
    and "folder \<noteq> []" and "last folder \<noteq> 47"
  shows "create_view (site pages bi cc) c p folder view w =
     (Inr (), w\<lparr>dirs := insert (os_path_join p folder) (dirs w),
                requests := requests w @ [u],
                files := (files w)(os_path_join p folder @ [47] @ py ''index.html'' \<mapsto> page),
                log := log w @ [py ''Created '' @ view @ py '' index.html at '' @
                                os_path_join p folder @ [47] @ py ''index.html'']\<rparr>)"
proof -
  let ?F = "os_path_join p folder"
  have ne: "?F \<noteq> []" using assms(5) by (rule os_path_join_nonempty)
  have idx: "os_path_join ?F (py ''index.html'') = ?F @ [47] @ py ''index.html''"
    and dn: "os_path_dirname (os_path_join ?F (py ''index.html'')) = ?F"
    using assms(5,6) by (rule view_index_path)+
  have t: "truthy (chapter_link c)" using assms(1,2) by (simp add: truthy_def)
  have s: "save_html (site pages bi cc) page (?F @ [47] @ py ''index.html'') w' =
      (Inr True, w'\<lparr>dirs := insert ?F (dirs w'),
                     files := (files w')(?F @ [47] @ py ''index.html'' \<mapsto> page)\<rparr>)" for w'
    using save_html_site [of "?F @ [47] @ py ''index.html''" pages bi cc page w'] dn ne
    by (simp add: idx)
  show ?thesis
    using t assms(1,3) ne s
    by (simp add: create_view_def Let_def bind_def lift_def os_makedirs_site
          fetch_site [OF assms(4)] idx print_def)
qed

lemma view_url_twins:
  "view_url (site pages bi cc) (py ''http://kd/a'') (py ''lectures'') = Inr (py ''http://kd/a?view=lectures'')"
  "view_url (site pages bi cc) (py ''http://kd/a'') (py ''notes'') = Inr (py ''http://kd/a?view=notes'')"
  "view_url (site pages bi cc) (py ''http://kd/b'') (py ''lectures'') = Inr (py ''http://kd/b?view=lectures'')"
  "view_url (site pages bi cc) (py ''http://kd/b'') (py ''notes'') = Inr (py ''http://kd/b?view=notes'')"
  by (simp_all add: view_url_def site_simps split_query_def unsplit_query_def replace_view_def
        parse_qs_def parse_qsl_def urlencode_def quote_plus_def quote_def quote_from_bytes_def
        encode_char_def always_safe_def py_def)

lemma clean_twins:
  "clean_filename (py ''Ch 1: Motion'') = py ''Ch 1 Motion''"
  "clean_filename (py ''Ch 1 Motion'') = py ''Ch 1 Motion''"
  by (simp_all add: clean_filename_def strip_def remove_invalid_def invalid_chars_def
        isspace_def py_def)

lemma twins_folder:
  "chapter_folder_path (py ''/out/Physics'') chapter_a = py ''/out/Physics/Ch 1 Motion''"
  "chapter_folder_path (py ''/out/Physics'') chapter_b = py ''/out/Physics/Ch 1 Motion''"
  by (simp_all add: chapter_folder_path_def chapter_a_def chapter_b_def clean_twins)
     (simp_all add: os_path_join_def startswith_def endswith_def py_def)

lemma twins_views:
  "create_view twins_site chapter_a p (py ''Lectures'') (py ''lectures'') w =
     (Inr (), w\<lparr>dirs := insert (os_path_join p (py ''Lectures'')) (dirs w),
                requests := requests w @ [py ''http://kd/a?view=lectures''],
                files := (files w)(os_path_join p (py ''Lectures'') @ [47] @ py ''index.html'' \<mapsto> py ''lectures A''),
                log := log w @ [py ''Created '' @ py ''lectures'' @ py '' index.html at '' @
                                os_path_join p (py ''Lectures'') @ [47] @ py ''index.html'']\<rparr>)"
  "create_view twins_site chapter_a p (py ''Notes'') (py ''notes'') w =
     (Inr (), w\<lparr>dirs := insert (os_path_join p (py ''Notes'')) (dirs w),
                requests := requests w @ [py ''http://kd/a?view=notes''],
                files := (files w)(os_path_join p (py ''Notes'') @ [47] @ py ''index.html'' \<mapsto> py ''notes A''),
                log := log w @ [py ''Created '' @ py ''notes'' @ py '' index.html at '' @
                                os_path_join p (py ''Notes'') @ [47] @ py ''index.html'']\<rparr>)"
  "create_view twins_site chapter_b p (py ''Lectures'') (py ''lectures'') w =
     (Inr (), w\<lparr>dirs := insert (os_path_join p (py ''Lectures'')) (dirs w),
                requests := requests w @ [py ''http://kd/b?view=lectures''],
                files := (files w)(os_path_join p (py ''Lectures'') @ [47] @ py ''index.html'' \<mapsto> py ''lectures B''),
                log := log w @ [py ''Created '' @ py ''lectures'' @ py '' index.html at '' @
                                os_path_join p (py ''Lectures'') @ [47] @ py ''index.html'']\<rparr>)"
  "create_view twins_site chapter_b p (py ''Notes'') (py ''notes'') w =
     (Inr (), w\<lparr>dirs := insert (os_path_join p (py ''Notes'')) (dirs w),
                requests := requests w @ [py ''http://kd/b?view=notes''],
                files := (files w)(os_path_join p (py ''Notes'') @ [47] @ py ''index.html'' \<mapsto> py ''notes B''),
                log := log w @ [py ''Created '' @ py ''notes'' @ py '' index.html at '' @
                                os_path_join p (py ''Notes'') @ [47] @ py ''index.html'']\<rparr>)"
proof -
  show "create_view twins_site chapter_a p (py ''Lectures'') (py ''lectures'') w =
     (Inr (), w\<lparr>dirs := insert (os_path_join p (py ''Lectures'')) (dirs w),
                requests := requests w @ [py ''http://kd/a?view=lectures''],
                files := (files w)(os_path_join p (py ''Lectures'') @ [47] @ py ''index.html'' \<mapsto> py ''lectures A''),
                log := log w @ [py ''Created '' @ py ''lectures'' @ py '' index.html at '' @
                                os_path_join p (py ''Lectures'') @ [47] @ py ''index.html'']\<rparr>)"
    unfolding twins_site_def
    by (rule create_view_site [where link = "py ''http://kd/a''"])
       (simp_all add: chapter_a_def view_url_twins py_eq_iff py_nonempty folder_names)
  show "create_view twins_site chapter_a p (py ''Notes'') (py ''notes'') w =
     (Inr (), w\<lparr>dirs := insert (os_path_join p (py ''Notes'')) (dirs w),
                requests := requests w @ [py ''http://kd/a?view=notes''],
                files := (files w)(os_path_join p (py ''Notes'') @ [47] @ py ''index.html'' \<mapsto> py ''notes A''),
                log := log w @ [py ''Created '' @ py ''notes'' @ py '' index.html at '' @
                                os_path_join p (py ''Notes'') @ [47] @ py ''index.html'']\<rparr>)"
    unfolding twins_site_def
    by (rule create_view_site [where link = "py ''http://kd/a''"])
       (simp_all add: chapter_a_def view_url_twins py_eq_iff py_nonempty folder_names)
  show "create_view twins_site chapter_b p (py ''Lectures'') (py ''lectures'') w =
     (Inr (), w\<lparr>dirs := insert (os_path_join p (py ''Lectures'')) (dirs w),
                requests := requests w @ [py ''http://kd/b?view=lectures''],
                files := (files w)(os_path_join p (py ''Lectures'') @ [47] @ py ''index.html'' \<mapsto> py ''lectures B''),
                log := log w @ [py ''Created '' @ py ''lectures'' @ py '' index.html at '' @
                                os_path_join p (py ''Lectures'') @ [47] @ py ''index.html'']\<rparr>)"
    unfolding twins_site_def
    by (rule create_view_site [where link = "py ''http://kd/b''"])
       (simp_all add: chapter_b_def view_url_twins py_eq_iff py_nonempty folder_names)
  show "create_view twins_site chapter_b p (py ''Notes'') (py ''notes'') w =
     (Inr (), w\<lparr>dirs := insert (os_path_join p (py ''Notes'')) (dirs w),
                requests := requests w @ [py ''http://kd/b?view=notes''],
                files := (files w)(os_path_join p (py ''Notes'') @ [47] @ py ''index.html'' \<mapsto> py ''notes B''),
                log := log w @ [py ''Created '' @ py ''notes'' @ py '' index.html at '' @
                                os_path_join p (py ''Notes'') @ [47] @ py ''index.html'']\<rparr>)"
    unfolding twins_site_def
    by (rule create_view_site [where link = "py ''http://kd/b''"])
       (simp_all add: chapter_b_def view_url_twins py_eq_iff py_nonempty folder_names)
qed

lemma twins_paths:
  "os_path_join (py ''/out/Physics/Ch 1 Motion'') (py ''Lectures'') = py ''/out/Physics/Ch 1 Motion/Lectures''"
  "os_path_join (py ''/out/Physics/Ch 1 Motion'') (py ''Notes'') = py ''/out/Physics/Ch 1 Motion/Notes''"
  by (simp_all add: os_path_join_def startswith_def endswith_def py_def)

lemma save_html_site_file:
  assumes "d \<noteq> []" and "last d \<noteq> 47" and "47 \<notin> set f"
  shows "save_html (site pages bi cc) content (d @ [47] @ f) w =
     (Inr True, w\<lparr>dirs := insert d (dirs w), files := (files w)(d @ [47] @ f \<mapsto> content)\<rparr>)"
  using save_html_site [of "d @ [47] @ f" pages bi cc content w] os_path_dirname_file [OF assms] assms(1)
  by simp

section \<open>Properties of the traversal\<close>

text \<open>
  Claim C9 (zero batch records end the run cleanly, with no root index page and no batch
  processed). When the extraction returns the empty list, \<^verbatim>\<open>create_batch_structure\<close>
  returns without an exception after printing the line \<^verbatim>\<open>No batches found!\<close>; the
  extraction has made no directory and written no file, and has requested the root page
  only, so no index page exists and no batch has been touched.
\<close>

theorem no_batches_found:
  assumes "extract_batches E main_url w = (Inr [], w1)"
  shows "create_batch_structure E main_url base_dir w =
           (Inr (), w1\<lparr>log := log w1 @ [py ''No batches found!'']\<rparr>) \<and>
         dirs w1 = dirs w \<and> files w1 = files w \<and>
         (\<exists>n. requests w1 = requests w @ replicate n main_url)"
proof -
  from assms have "create_batch_structure E main_url base_dir w =
      (Inr (), w1\<lparr>log := log w1 @ [py ''No batches found!'']\<rparr>)"
    by (simp add: create_batch_structure_def bind_def print_def)
  moreover from extract_batches_never_raises [of E main_url w] assms
  have "dirs w1 = dirs w \<and> files w1 = files w \<and>
        (\<exists>n. requests w1 = requests w @ replicate n main_url)"
    by auto
  ultimately show ?thesis by simp
qed

theorem no_batches_found_witness:
  "extract_batches empty_site (py ''http://kd/'') world0 =
     (Inr [], world0\<lparr>log := [py ''Fetching batches from: http://kd/''],
                    requests := [py ''http://kd/'']\<rparr>) \<and>
   create_batch_structure empty_site (py ''http://kd/'') (py ''/out/'') world0 =
     (Inr (), world0\<lparr>log := [py ''Fetching batches from: http://kd/'', py ''No batches found!''],
                    requests := [py ''http://kd/'']\<rparr>)"
proof -
  have g: "http_get empty_site w (py ''http://kd/'') = Inr (py ''root page'')" for w
    by (simp add: empty_site_def site_simps)
  have i: "find_batch_items empty_site (py ''root page'') = []"
    by (simp add: empty_site_def site_simps)
  have e: "extract_batches empty_site (py ''http://kd/'') world0 =
     (Inr [], world0\<lparr>log := [py ''Fetching batches from: http://kd/''],
                    requests := [py ''http://kd/'']\<rparr>)"
    by (simp add: extract_batches_def fetch_ok [OF g] bind_def i ret_def world0_def print_def
          py_append)
  from no_batches_found [OF e, of "py ''/out/''"] e show ?thesis
    by (simp add: world0_def)
qed

text \<open>
  Claim C5, as amended (nothing disambiguates the folders of chapters): the folder of a
  chapter depends on its sanitized name alone, so two chapters of a batch are given the
  same folder exactly when their names sanitize to the same string.
\<close>

theorem same_folder_iff_same_clean_name:
  "chapter_folder_path batch_folder_path c1 = chapter_folder_path batch_folder_path c2 \<longleftrightarrow>
   clean_filename (chapter_name c1) = clean_filename (chapter_name c2)"
  unfolding chapter_folder_path_def Let_def
  by (rule os_path_join_inject) (rule clean_filename_no_slash)+

theorem same_folder_iff_same_clean_name_witness:
  "chapter_folder_path (py ''/out/Physics'') chapter_a =
   chapter_folder_path (py ''/out/Physics'') chapter_b"
  using same_folder_iff_same_clean_name [of "py ''/out/Physics''" chapter_a chapter_b]
  by (simp add: chapter_a_def chapter_b_def clean_twins)

text \<open>
  Claim C5 as stated fails on two chapters named \<^verbatim>\<open>Ch 1: Motion\<close> and \<^verbatim>\<open>Ch 1 Motion\<close>:
  they are different records with the same sanitized name, both are written to the
  folder \<^verbatim>\<open>Ch 1 Motion\<close>, and after the loop over the chapters the only files are the
  two pages of the second chapter, in the place of those of the first.
\<close>

theorem same_folder_counterexample:
  "chapter_a \<noteq> chapter_b \<and>
   clean_filename (chapter_name chapter_a) = clean_filename (chapter_name chapter_b) \<and>
   fst (process_chapters twins_site (py ''/out/Physics'') [chapter_a, chapter_b] world0) = Inr () \<and>
   files (snd (process_chapters twins_site (py ''/out/Physics'') [chapter_a, chapter_b] world0))
     (py ''/out/Physics/Ch 1 Motion/Lectures/index.html'') = Some (py ''lectures B'') \<and>
   files (snd (process_chapters twins_site (py ''/out/Physics'') [chapter_a, chapter_b] world0))
     (py ''/out/Physics/Ch 1 Motion/Notes/index.html'') = Some (py ''notes B'') \<and>
   dom (files (snd (process_chapters twins_site (py ''/out/Physics'') [chapter_a, chapter_b] world0))) =
     {py ''/out/Physics/Ch 1 Motion/Lectures/index.html'',
      py ''/out/Physics/Ch 1 Motion/Notes/index.html''}"
proof -
  have mk: "os_makedirs twins_site (py ''/out/Physics/Ch 1 Motion'') w =
      (Inr (), w\<lparr>dirs := insert (py ''/out/Physics/Ch 1 Motion'') (dirs w)\<rparr>)" for w
    unfolding twins_site_def by (rule os_makedirs_site) (simp add: py_nonempty)
  have run: "process_chapters twins_site (py ''/out/Physics'') [chapter_a, chapter_b] world0 =
      (Inr (),
       snd (process_chapters twins_site (py ''/out/Physics'') [chapter_a, chapter_b] world0))"
    by (simp add: twins_folder mk bind_def print_def create_chapter_views_def twins_views ret_def)
  have f1: "files (snd (process_chapters twins_site (py ''/out/Physics'') [chapter_a, chapter_b] world0))
      (py ''/out/Physics/Ch 1 Motion/Lectures/index.html'') = Some (py ''lectures B'')"
    by (simp add: twins_folder mk bind_def print_def create_chapter_views_def twins_views ret_def
          twins_paths py_snoc world0_def py_eq_iff)
  have f2: "files (snd (process_chapters twins_site (py ''/out/Physics'') [chapter_a, chapter_b] world0))
      (py ''/out/Physics/Ch 1 Motion/Notes/index.html'') = Some (py ''notes B'')"
    by (simp add: twins_folder mk bind_def print_def create_chapter_views_def twins_views ret_def
          twins_paths py_snoc world0_def py_eq_iff)
  have f3: "dom (files (snd (process_chapters twins_site (py ''/out/Physics'') [chapter_a, chapter_b] world0))) =
     {py ''/out/Physics/Ch 1 Motion/Lectures/index.html'',
      py ''/out/Physics/Ch 1 Motion/Notes/index.html''}"
    by (simp add: twins_folder mk bind_def print_def create_chapter_views_def twins_views ret_def
          twins_paths py_snoc world0_def py_eq_iff insert_commute)
  have d: "chapter_a \<noteq> chapter_b"
    by (simp add: chapter_a_def chapter_b_def py_eq_iff)
  have c: "clean_filename (chapter_name chapter_a) = clean_filename (chapter_name chapter_b)"
    by (simp add: chapter_a_def chapter_b_def clean_twins)
  from run have "fst (process_chapters twins_site (py ''/out/Physics'') [chapter_a, chapter_b] world0) = Inr ()"
    by (metis fst_conv)
  with d c f1 f2 f3 show ?thesis
    by simp
qed

subsection \<open>A batch whose name sanitizes to nothing\<close>

lemma clean_blank_name: "blank_name \<noteq> []" "clean_filename blank_name = []"
  by (simp_all add: blank_name_def clean_filename_def remove_invalid_def strip_def isspace_def
        invalid_chars_def)

lemma kd_best_paths:
  "os_path_join kd_best [] = kd_best"
  "os_path_join kd_best (py ''index.html'') = py ''/storage/emulated/0/KD_BEST/index.html''"
  "os_path_join kd_best (py ''batch_details.html'') = py ''/storage/emulated/0/KD_BEST/batch_details.html''"
  by (simp_all add: kd_best_def os_path_join_def startswith_def endswith_def py_def)

lemma blank_extract:
  "extract_batches blank_site (py ''http://kd/'') world0 =
     (Inr [\<lparr>batch_name = blank_name, batch_link = py ''http://kd/b1'', batch_image = [],
            batch_folder = None\<rparr>],
      world0\<lparr>log := [py ''Fetching batches from: http://kd/''],
             requests := [py ''http://kd/'']\<rparr>)"
proof -
  have g: "map_of [(py ''http://kd/'', py ''root page''), (py ''http://kd/b1'', py ''batch page'')]
      (py ''http://kd/'') = Some (py ''root page'')"
    by simp
  have n: "blank_name \<noteq> []" by (rule clean_blank_name)
  have b: "extract_batch blank_site (py ''http://kd/'') blank_item =
      Inr (Some \<lparr>batch_name = blank_name, batch_link = py ''http://kd/b1'', batch_image = [],
            batch_folder = None\<rparr>)"
    using n by (simp add: extract_batch_def blank_item_def blank_site_def site_simps image_source_def)
  show ?thesis
    unfolding blank_site_def
    by (simp add: extract_batches_def bind_def print_def fetch_site [OF g] site_simps
          b [unfolded blank_site_def] ret_def world0_def py_append)
qed

text \<open>
  Claim C10 (a non-empty name can sanitize to the empty string, and the batch is then
  written into the output root). The name of the nine removed characters and a blank is
  not empty and sanitizes to the empty string; joined to the output root of \<^verbatim>\<open>main\<close> it
  gives the root itself, and for every root the index page of such a batch has the
  path of the root index page. On the site whose only batch has that name,
  \<^verbatim>\<open>create_main_index\<close> writes the root index page, and the run, which raises nothing,
  ends with the index page of the batch at that path and its \<^verbatim>\<open>batch_details.html\<close>
  beside it, the only two files.
\<close>

theorem empty_folder_name_collides:
  "blank_name \<noteq> [] \<and> clean_filename blank_name = [] \<and>
   os_path_join kd_best (clean_filename blank_name) = kd_best \<and>
   os_path_join (os_path_join base_dir (clean_filename blank_name)) (py ''index.html'') =
     os_path_join base_dir (py ''index.html'') \<and>
   files (snd (create_main_index blank_site
                 [\<lparr>batch_name = blank_name, batch_link = py ''http://kd/b1'', batch_image = [],
                    batch_folder = None\<rparr>] kd_best world0))
     (py ''/storage/emulated/0/KD_BEST/index.html'') = Some (py ''All Batches: '' @ blank_name) \<and>
   fst (create_batch_structure blank_site (py ''http://kd/'') kd_best world0) = Inr () \<and>
   files (snd (create_batch_structure blank_site (py ''http://kd/'') kd_best world0))
     (py ''/storage/emulated/0/KD_BEST/index.html'') = Some (py ''Batch: '' @ blank_name) \<and>
   files (snd (create_batch_structure blank_site (py ''http://kd/'') kd_best world0))
     (py ''/storage/emulated/0/KD_BEST/batch_details.html'') = Some (py ''batch page'') \<and>
   dom (files (snd (create_batch_structure blank_site (py ''http://kd/'') kd_best world0))) =
     {py ''/storage/emulated/0/KD_BEST/index.html'',
      py ''/storage/emulated/0/KD_BEST/batch_details.html''}"
proof -
  let ?run = "create_batch_structure blank_site (py ''http://kd/'') kd_best world0"
  have g: "map_of [(py ''http://kd/'', py ''root page''), (py ''http://kd/b1'', py ''batch page'')]
      (py ''http://kd/b1'') = Some (py ''batch page'')"
    by (simp add: py_eq_iff)
  have f: "fetch blank_site (py ''http://kd/b1'') w =
      (Inr (Some (py ''batch page''), True), w\<lparr>requests := requests w @ [py ''http://kd/b1'']\<rparr>)" for w
    unfolding blank_site_def by (rule fetch_site [OF g])
  have mk: "os_makedirs blank_site kd_best w = (Inr (), w\<lparr>dirs := insert kd_best (dirs w)\<rparr>)" for w
    unfolding blank_site_def by (rule os_makedirs_site) (simp add: kd_best_def py_nonempty)
  have sv: "save_html blank_site content (py ''/storage/emulated/0/KD_BEST/index.html'') w =
      (Inr True, w\<lparr>dirs := insert (py ''/storage/emulated/0/KD_BEST'') (dirs w),
                    files := (files w)(py ''/storage/emulated/0/KD_BEST/index.html'' \<mapsto> content)\<rparr>)"
    "save_html blank_site content (py ''/storage/emulated/0/KD_BEST/batch_details.html'') w =
      (Inr True, w\<lparr>dirs := insert (py ''/storage/emulated/0/KD_BEST'') (dirs w),
                    files := (files w)(py ''/storage/emulated/0/KD_BEST/batch_details.html'' \<mapsto> content)\<rparr>)"
    for content w
  proof -
    have e: "py ''/storage/emulated/0/KD_BEST/index.html'' =
          py ''/storage/emulated/0/KD_BEST'' @ [47] @ py ''index.html''"
      "py ''/storage/emulated/0/KD_BEST/batch_details.html'' =
          py ''/storage/emulated/0/KD_BEST'' @ [47] @ py ''batch_details.html''"
      by (simp_all add: py_def)
    have d: "py ''/storage/emulated/0/KD_BEST'' \<noteq> []" "last (py ''/storage/emulated/0/KD_BEST'') \<noteq> 47"
      "47 \<notin> set (py ''index.html'')" "47 \<notin> set (py ''batch_details.html'')"
      by (simp_all add: py_def)
    show "save_html blank_site content (py ''/storage/emulated/0/KD_BEST/index.html'') w =
      (Inr True, w\<lparr>dirs := insert (py ''/storage/emulated/0/KD_BEST'') (dirs w),
                    files := (files w)(py ''/storage/emulated/0/KD_BEST/index.html'' \<mapsto> content)\<rparr>)"
      unfolding blank_site_def e(1) using d by (intro save_html_site_file)
    show "save_html blank_site content (py ''/storage/emulated/0/KD_BEST/batch_details.html'') w =
      (Inr True, w\<lparr>dirs := insert (py ''/storage/emulated/0/KD_BEST'') (dirs w),
                    files := (files w)(py ''/storage/emulated/0/KD_BEST/batch_details.html'' \<mapsto> content)\<rparr>)"
      unfolding blank_site_def e(2) using d by (intro save_html_site_file)
  qed
  have cards: "find_chapter_cards blank_site c = []" for c
    by (simp add: blank_site_def site_simps)
  have rn: "render_main_index blank_site bs = py ''All Batches: '' @ concat (map batch_name bs)"
    "render_batch_index blank_site b cs = py ''Batch: '' @ batch_name b" for bs b cs
    by (simp_all add: blank_site_def site_simps)
  have world0_files: "files world0 = Map.empty" by (simp add: world0_def)
  note run_simps = create_batch_structure_def blank_extract bind_def print_def ret_def
    create_main_index_def Let_def kd_best_paths clean_blank_name sv process_batch_def
    try_except_def mk f extract_chapters_def cards create_batch_index_def time_sleep_def rn
  have 1: "fst ?run = Inr ()"
    by (simp add: run_simps)
  have 2: "files (snd ?run) (py ''/storage/emulated/0/KD_BEST/index.html'') =
      Some (py ''Batch: '' @ blank_name)"
    by (simp add: run_simps py_eq_iff)
  have 3: "files (snd ?run) (py ''/storage/emulated/0/KD_BEST/batch_details.html'') =
      Some (py ''batch page'')"
    by (simp add: run_simps py_eq_iff)
  have 4: "dom (files (snd ?run)) =
     {py ''/storage/emulated/0/KD_BEST/index.html'',
      py ''/storage/emulated/0/KD_BEST/batch_details.html''}"
    by (simp add: run_simps py_eq_iff world0_files insert_commute)
  have 5: "files (snd (create_main_index blank_site
                 [\<lparr>batch_name = blank_name, batch_link = py ''http://kd/b1'', batch_image = [],
                    batch_folder = None\<rparr>] kd_best world0))
     (py ''/storage/emulated/0/KD_BEST/index.html'') = Some (py ''All Batches: '' @ blank_name)"
    by (simp add: create_main_index_def Let_def kd_best_paths sv bind_def print_def ret_def rn)
  from 1 2 3 4 5 show ?thesis
    by (simp add: clean_blank_name kd_best_paths empty_folder_index)
qed

end
